theory Spec2Isabelle
  imports Complex_Main
begin

section \<open>Numbers, vectors and scene objects\<close>

text \<open>
  The two scripts (variant 1: \<^verbatim>\<open>src/script.js\<close>; variant 2: the second, unnamed script)
  build a scene, register a resize listener, and start an asynchronous \<^verbatim>\<open>init\<close> that
  waits for the webcam before it adds the video screen and starts the frame loop.

  JavaScript numbers are modelled as mathematical reals: rounding is not modelled.
  A division can leave the finite numbers, so its result is a \<open>jsnum\<close>.
\<close>

datatype jsnum = Finite real | PosInfinity | NegInfinity | NaN

definition js_div :: "real \<Rightarrow> real \<Rightarrow> jsnum" where
  "js_div a b =
     (if b = 0 then (if 0 < a then PosInfinity else if a < 0 then NegInfinity else NaN)
      else Finite (a / b))"

text \<open>A \<^verbatim>\<open>Vector3\<close> (also used for the \<^verbatim>\<open>x, y, z\<close> of an Euler rotation).\<close>

datatype vector3 = Vector3 (vec_x: real) (vec_y: real) (vec_z: real)

fun set_x :: "real \<Rightarrow> vector3 \<Rightarrow> vector3" where
  "set_x v (Vector3 a b c) = Vector3 v b c"

fun set_y :: "real \<Rightarrow> vector3 \<Rightarrow> vector3" where
  "set_y v (Vector3 a b c) = Vector3 a v c"

fun set_z :: "real \<Rightarrow> vector3 \<Rightarrow> vector3" where
  "set_z v (Vector3 a b c) = Vector3 a b v"

datatype geometry =
    SphereGeometry real nat nat
  | BoxGeometry real real real
  | TorusGeometry real real nat nat
  | PlaneGeometry real real

record object3d =
  position :: vector3
  rotation :: vector3
  scale :: vector3

record mesh = object3d +
  geometry :: geometry

record light = object3d +
  intensity :: real

text \<open>A freshly constructed object sits at the origin, unrotated, with unit scale.\<close>

definition new_mesh :: "geometry \<Rightarrow> mesh" where
  "new_mesh g =
     \<lparr>position = Vector3 0 0 0, rotation = Vector3 0 0 0, scale = Vector3 1 1 1,
      geometry = g\<rparr>"

definition new_light :: "real \<Rightarrow> light" where
  "new_light i =
     \<lparr>position = Vector3 0 0 0, rotation = Vector3 0 0 0, scale = Vector3 1 1 1,
      intensity = i\<rparr>"

text \<open>The objects that can be children of the scene, by the name the scripts give them.\<close>

datatype object_id =
    AmbientLight | DirectionalLight | PointLight | RectAreaLight
  | DirectionalLightHelper | PointLightHelper | RectAreaLightHelper
  | MovingLight1 | MovingLight2 | MovingLight3
  | Sphere | Cube | Torus | Plane | Camera | Screen

section \<open>Browser and library state\<close>

record window =
  innerWidth :: real
  innerHeight :: real
  devicePixelRatio :: real

record sizes =
  width :: real
  height :: real

text \<open>
  The perspective camera. \<open>projection_aspect\<close> is the aspect ratio baked into the
  projection matrix by the last \<^verbatim>\<open>updateProjectionMatrix()\<close>. \<open>camera_position\<close> is
  \<^verbatim>\<open>camera.position\<close>; the orbit controls keep the camera looking at their target, so its
  orientation is given by the position and that target.
\<close>

record camera =
  fov :: real
  aspect :: jsnum
  near :: real
  far :: real
  projection_aspect :: jsnum
  camera_position :: vector3

definition updateProjectionMatrix :: "camera \<Rightarrow> camera" where
  "updateProjectionMatrix c = c\<lparr>projection_aspect := aspect c\<rparr>"

definition new_camera :: "real \<Rightarrow> jsnum \<Rightarrow> real \<Rightarrow> real \<Rightarrow> camera" where
  "new_camera f a n fr =
     updateProjectionMatrix
       \<lparr>fov = f, aspect = a, near = n, far = fr, projection_aspect = a,
        camera_position = Vector3 0 0 0\<rparr>"

text \<open>
  The orbit controls belong to the rendering library. What \<^verbatim>\<open>controls.update()\<close> writes to
  the camera is decided by the library from the pointer input and its damping, so the
  model takes it from the environment: \<open>trajectory\<close> holds the poses (camera position and
  target) that the coming updates will write, one per update; when it is empty the
  controls are at rest and an update leaves the camera where it is.
\<close>

record orbit_controls =
  enableDamping :: bool
  target :: vector3
  trajectory :: "(vector3 \<times> vector3) list"

definition new_orbit_controls :: orbit_controls where
  "new_orbit_controls = \<lparr>enableDamping = False, target = Vector3 0 0 0, trajectory = []\<rparr>"

record renderer =
  surface_width :: real
  surface_height :: real
  pixelRatio :: real

definition setSize :: "real \<Rightarrow> real \<Rightarrow> renderer \<Rightarrow> renderer" where
  "setSize w h r = r\<lparr>surface_width := w, surface_height := h\<rparr>"

definition setPixelRatio :: "real \<Rightarrow> renderer \<Rightarrow> renderer" where
  "setPixelRatio p r = r\<lparr>pixelRatio := p\<rparr>"

text \<open>
  A new renderer starts with the default size of a canvas and pixel ratio 1; both scripts
  overwrite them on the next two lines.
\<close>

definition new_renderer :: renderer where
  "new_renderer = \<lparr>surface_width = 300, surface_height = 150, pixelRatio = 1\<rparr>"

type_synonym media_stream = nat

record video_element =
  autoplay :: bool
  muted :: bool
  playsInline :: bool
  srcObject :: "media_stream option"
  playing :: bool

datatype texture_filter = NearestFilter | LinearFilter | LinearMipmapLinearFilter

datatype texture_format = RGBFormat | RGBAFormat

record video_texture =
  needsUpdate :: bool
  minFilter :: texture_filter
  magFilter :: texture_filter
  format :: texture_format

text \<open>The reason a \<^verbatim>\<open>getUserMedia\<close> promise rejects with.\<close>

datatype media_error = NotAllowedError | NotFoundError | NotReadableError | OtherError

text \<open>
  Where the asynchronous \<^verbatim>\<open>init()\<close> stands: not called yet, suspended at the first \<^verbatim>\<open>await\<close> of
  \<^verbatim>\<open>setupWebcam\<close> (the camera request), suspended at its second (the video's metadata),
  returned, or rejected. Nothing awaits or catches the promise of \<^verbatim>\<open>init()\<close>, so a
  rejection is unhandled.
\<close>

datatype init_state =
    NotStarted | AwaitUserMedia | AwaitMetadata | InitDone | InitRejected media_error

text \<open>The steps of the frame callback, recorded in the order it performs them.\<close>

datatype axis = AxisX | AxisY | AxisZ

datatype frame_step =
    GetElapsedTime
  | SetRotation object_id axis
  | SetPosition object_id axis
  | SetNeedsUpdate
  | ControlsUpdate
  | Render
  | RequestAnimationFrame

section \<open>The session: what the two scripts share\<close>

record session =
  sizes :: sizes
  camera :: camera
  controls :: orbit_controls
  renderer :: renderer
  ambientLight :: light
  directionalLight :: light
  rectAreaLight :: light
  plane :: mesh
  scene :: "object_id list"
  video :: "video_element option"
  videoTexture :: "video_texture option"
  screen :: "mesh option"
  init_state :: init_state
  frame_requested :: bool
  trace :: "frame_step list"

text \<open>\<^verbatim>\<open>scene.add(o)\<close> of an object that has no parent yet appends it to the children.\<close>

definition scene_add :: "object_id \<Rightarrow> object_id list \<Rightarrow> object_id list" where
  "scene_add obj children = children @ [obj]"

definition emit :: "frame_step \<Rightarrow> 'a session_scheme \<Rightarrow> 'a session_scheme" where
  "emit e s = s\<lparr>trace := trace s @ [e]\<rparr>"

subsection \<open>The resize listener (the same text in both scripts)\<close>

definition on_resize :: "window \<Rightarrow> 'a session_scheme \<Rightarrow> 'a session_scheme" where
  "on_resize win s0 =
     (let s = s0\<lparr>sizes := (sizes s0)\<lparr>width := innerWidth win\<rparr>\<rparr>;
          s = s\<lparr>sizes := (sizes s)\<lparr>height := innerHeight win\<rparr>\<rparr>;
          s = s\<lparr>camera := (camera s)\<lparr>aspect := js_div (width (sizes s)) (height (sizes s))\<rparr>\<rparr>;
          s = s\<lparr>camera := updateProjectionMatrix (camera s)\<rparr>;
          s = s\<lparr>renderer := setSize (width (sizes s)) (height (sizes s)) (renderer s)\<rparr>;
          s = s\<lparr>renderer := setPixelRatio (min (devicePixelRatio win) 2) (renderer s)\<rparr>
      in s)"

subsection \<open>The webcam and the shared steps of the frame callback\<close>

text \<open>\<^verbatim>\<open>setupWebcam\<close> up to its first \<^verbatim>\<open>await\<close>.\<close>

definition setupWebcam_begin :: "'a session_scheme \<Rightarrow> 'a session_scheme" where
  "setupWebcam_begin s =
     s\<lparr>video := Some \<lparr>autoplay = True, muted = True, playsInline = True,
                      srcObject = None, playing = False\<rparr>,
       init_state := AwaitUserMedia\<rparr>"

text \<open>\<^verbatim>\<open>getUserMedia\<close> resolved: attach the stream and wait for the metadata.\<close>

definition setupWebcam_stream :: "media_stream \<Rightarrow> 'a session_scheme \<Rightarrow> 'a session_scheme" where
  "setupWebcam_stream stream s =
     s\<lparr>video := map_option (\<lambda>v. v\<lparr>srcObject := Some stream\<rparr>) (video s),
       init_state := AwaitMetadata\<rparr>"

text \<open>The metadata arrived: \<^verbatim>\<open>video.play()\<close>, and \<^verbatim>\<open>setupWebcam\<close> returns the video.\<close>

definition setupWebcam_finish :: "'a session_scheme \<Rightarrow> 'a session_scheme" where
  "setupWebcam_finish s = s\<lparr>video := map_option (\<lambda>v. v\<lparr>playing := True\<rparr>) (video s)\<rparr>"

definition new_video_texture :: video_texture where
  "new_video_texture =
     \<lparr>needsUpdate = False, minFilter = LinearFilter, magFilter = LinearFilter,
      format = RGBAFormat\<rparr>"

text \<open>\<^verbatim>\<open>if (videoTexture) { videoTexture.needsUpdate = true; }\<close>\<close>

definition update_video_texture :: "'a session_scheme \<Rightarrow> 'a session_scheme" where
  "update_video_texture s =
     (case videoTexture s of
        None \<Rightarrow> s
      | Some tex \<Rightarrow> emit SetNeedsUpdate (s\<lparr>videoTexture := Some (tex\<lparr>needsUpdate := True\<rparr>)\<rparr>))"

text \<open>
  One update of the controls, given the camera's position: the next pose of the
  trajectory becomes the camera's position and the target, if there is one.
\<close>

definition orbit_step :: "orbit_controls \<Rightarrow> vector3 \<Rightarrow> vector3 \<times> orbit_controls" where
  "orbit_step c p =
     (case trajectory c of
        [] \<Rightarrow> (p, c)
      | pose # rest \<Rightarrow> (fst pose, c\<lparr>target := snd pose, trajectory := rest\<rparr>))"

text \<open>\<^verbatim>\<open>controls.update()\<close>\<close>

definition update_controls :: "'a session_scheme \<Rightarrow> 'a session_scheme" where
  "update_controls s =
     (let moved = orbit_step (controls s) (camera_position (camera s))
      in emit ControlsUpdate
           (s\<lparr>camera := (camera s)\<lparr>camera_position := fst moved\<rparr>, controls := snd moved\<rparr>))"

text \<open>
  The user drags, scrolls or releases on the canvas: the controls have a new trajectory
  to write.
\<close>

definition pointer_input :: "(vector3 \<times> vector3) list \<Rightarrow> 'a session_scheme \<Rightarrow> 'a session_scheme" where
  "pointer_input poses s = s\<lparr>controls := (controls s)\<lparr>trajectory := poses\<rparr>\<rparr>"

definition render :: "'a session_scheme \<Rightarrow> 'a session_scheme" where
  "render s = emit Render s"

definition requestAnimationFrame :: "'a session_scheme \<Rightarrow> 'a session_scheme" where
  "requestAnimationFrame s = emit RequestAnimationFrame (s\<lparr>frame_requested := True\<rparr>)"

text \<open>
  Modelled from the spec: the slider controller of the debug-panel library, which is not
  part of the sources. It accepts a bounded numeric input and writes the value, clamped to
  the range, back to the bound property.
\<close>

definition slider_value :: "real \<Rightarrow> real \<Rightarrow> real \<Rightarrow> real" where
  "slider_value lo hi v = max lo (min hi v)"

text \<open>What the browser can deliver to a running page.\<close>

datatype event =
    UserMediaGranted media_stream
  | UserMediaDenied media_error
  | LoadedMetadata real
  | AnimationFrame real
  | Resize window
  | SliderInput object_id real
  | PointerInput "(vector3 \<times> vector3) list"

text \<open>
  \<open>LoadedMetadata t\<close> and \<open>AnimationFrame t\<close> carry the value that
  \<^verbatim>\<open>clock.getElapsedTime()\<close> returns in the tick they start. \<open>PointerInput poses\<close>
  carries the trajectory that the orbit controls derive from the user's gesture.
\<close>

section \<open>Variant 1: three rotating meshes\<close>

record session1 = session +
  pointLight :: light
  sphere :: mesh
  cube :: mesh
  torus :: mesh

definition module1 :: "window \<Rightarrow> session1" where
  "module1 win =
     (let sz = \<lparr>width = innerWidth win, height = innerHeight win\<rparr> in
      \<lparr>sizes = sz,
       camera = (new_camera 75 (js_div (width sz) (height sz)) 0.1 100)
                  \<lparr>camera_position := set_z 2 (set_y 1 (set_x 1 (Vector3 0 0 0)))\<rparr>,
       controls = new_orbit_controls\<lparr>enableDamping := True\<rparr>,
       renderer = setPixelRatio (min (devicePixelRatio win) 2)
                    (setSize (width sz) (height sz) new_renderer),
       ambientLight = new_light 0.0,
       directionalLight = (new_light 0.0)\<lparr>position := Vector3 1 0.25 0\<rparr>,
       rectAreaLight = (new_light 3)\<lparr>position := Vector3 (-1.5) 0 1.5\<rparr>,
       plane = (new_mesh (PlaneGeometry 5 5))
                 \<lparr>rotation := set_x (- pi * 0.5) (Vector3 0 0 0),
                  position := set_y (- 0.65) (Vector3 0 0 0)\<rparr>,
       scene = [AmbientLight, DirectionalLight, PointLight, RectAreaLight,
                DirectionalLightHelper, PointLightHelper, RectAreaLightHelper,
                Sphere, Cube, Torus, Plane, Camera],
       video = None,
       videoTexture = None,
       screen = None,
       init_state = NotStarted,
       frame_requested = False,
       trace = [],
       pointLight = (new_light 1.0)\<lparr>position := Vector3 1 (-0.5) 1\<rparr>,
       sphere = (new_mesh (SphereGeometry 0.5 32 32))\<lparr>position := set_x (-1.5) (Vector3 0 0 0)\<rparr>,
       cube = new_mesh (BoxGeometry 0.75 0.75 0.75),
       torus = (new_mesh (TorusGeometry 0.3 0.2 32 64))\<lparr>position := set_x 1.5 (Vector3 0 0 0)\<rparr>\<rparr>)"

definition tick1 :: "real \<Rightarrow> session1 \<Rightarrow> session1" where
  "tick1 elapsedTime s0 =
     (let s = emit GetElapsedTime s0;
          s = emit (SetRotation Sphere AxisY)
                (s\<lparr>sphere := (sphere s)\<lparr>rotation := set_y (0.1 * elapsedTime) (rotation (sphere s))\<rparr>\<rparr>);
          s = emit (SetRotation Cube AxisY)
                (s\<lparr>cube := (cube s)\<lparr>rotation := set_y (0.1 * elapsedTime) (rotation (cube s))\<rparr>\<rparr>);
          s = emit (SetRotation Torus AxisY)
                (s\<lparr>torus := (torus s)\<lparr>rotation := set_y (0.1 * elapsedTime) (rotation (torus s))\<rparr>\<rparr>);
          s = emit (SetRotation Sphere AxisX)
                (s\<lparr>sphere := (sphere s)\<lparr>rotation := set_x (0.15 * elapsedTime) (rotation (sphere s))\<rparr>\<rparr>);
          s = emit (SetRotation Cube AxisX)
                (s\<lparr>cube := (cube s)\<lparr>rotation := set_x (0.15 * elapsedTime) (rotation (cube s))\<rparr>\<rparr>);
          s = emit (SetRotation Torus AxisX)
                (s\<lparr>torus := (torus s)\<lparr>rotation := set_x (0.15 * elapsedTime) (rotation (torus s))\<rparr>\<rparr>);
          s = update_video_texture s;
          s = update_controls s;
          s = render s;
          s = requestAnimationFrame s
      in s)"

text \<open>\<^verbatim>\<open>init\<close> after \<^verbatim>\<open>await setupWebcam()\<close> has returned the video.\<close>

definition init1_resume :: "real \<Rightarrow> session1 \<Rightarrow> session1" where
  "init1_resume elapsedTime s0 =
     (let s = s0\<lparr>videoTexture := Some new_video_texture\<rparr>;
          s = s\<lparr>videoTexture := map_option (\<lambda>tex. tex\<lparr>minFilter := LinearFilter\<rparr>) (videoTexture s)\<rparr>;
          s = s\<lparr>videoTexture := map_option (\<lambda>tex. tex\<lparr>magFilter := LinearFilter\<rparr>) (videoTexture s)\<rparr>;
          s = s\<lparr>videoTexture := map_option (\<lambda>tex. tex\<lparr>format := RGBFormat\<rparr>) (videoTexture s)\<rparr>;
          screen0 = new_mesh (PlaneGeometry (16 / 9) 1);
          screen0 = screen0\<lparr>position := Vector3 0 1 (-5)\<rparr>;
          s = s\<lparr>screen := Some screen0, scene := scene_add Screen (scene s)\<rparr>;
          s = tick1 elapsedTime s
      in s\<lparr>init_state := InitDone\<rparr>)"

text \<open>The four sliders of variant 1, each bound to one light's intensity.\<close>

definition slider1 :: "object_id \<Rightarrow> real \<Rightarrow> session1 \<Rightarrow> session1" where
  "slider1 obj v s =
     (if obj = AmbientLight then
        s\<lparr>ambientLight := (ambientLight s)\<lparr>intensity := slider_value 0 1 v\<rparr>\<rparr>
      else if obj = DirectionalLight then
        s\<lparr>directionalLight := (directionalLight s)\<lparr>intensity := slider_value 0 1 v\<rparr>\<rparr>
      else if obj = PointLight then
        s\<lparr>pointLight := (pointLight s)\<lparr>intensity := slider_value 0 5 v\<rparr>\<rparr>
      else if obj = RectAreaLight then
        s\<lparr>rectAreaLight := (rectAreaLight s)\<lparr>intensity := slider_value 0 10 v\<rparr>\<rparr>
      else s)"

text \<open>
  One event of the page. A promise settles once and a requested animation frame fires
  once, so an event that no pending callback waits for changes nothing.
\<close>

fun step1 :: "event \<Rightarrow> session1 \<Rightarrow> session1" where
  "step1 (UserMediaGranted stream) s =
     (if init_state s = AwaitUserMedia then setupWebcam_stream stream s else s)"
| "step1 (UserMediaDenied err) s =
     (if init_state s = AwaitUserMedia then s\<lparr>init_state := InitRejected err\<rparr> else s)"
| "step1 (LoadedMetadata t) s =
     (if init_state s = AwaitMetadata then init1_resume t (setupWebcam_finish s) else s)"
| "step1 (AnimationFrame t) s =
     (if frame_requested s then tick1 t (s\<lparr>frame_requested := False\<rparr>) else s)"
| "step1 (Resize win) s = on_resize win s"
| "step1 (SliderInput obj v) s = slider1 obj v s"
| "step1 (PointerInput poses) s = pointer_input poses s"

fun run1 :: "event list \<Rightarrow> session1 \<Rightarrow> session1" where
  "run1 [] s = s"
| "run1 (e # es) s = run1 es (step1 e s)"

text \<open>The page of variant 1 once the script has run: \<^verbatim>\<open>init()\<close> is suspended on the camera.\<close>

definition initial1 :: "window \<Rightarrow> session1" where
  "initial1 win = setupWebcam_begin (module1 win)"

section \<open>Variant 2: three moving lights\<close>

record session2 = session +
  movingLight1 :: light
  movingLight2 :: light
  movingLight3 :: light

definition epsilon :: real where
  "epsilon = 0.01"

definition module2 :: "window \<Rightarrow> session2" where
  "module2 win =
     (let sz = \<lparr>width = innerWidth win, height = innerHeight win\<rparr> in
      \<lparr>sizes = sz,
       camera = (new_camera 75 (js_div (width sz) (height sz)) 0.1 100)
                  \<lparr>camera_position := set_z 1.25 (set_y 0 (set_x 0 (Vector3 0 0 0)))\<rparr>,
       controls = new_orbit_controls\<lparr>enableDamping := True\<rparr>,
       renderer = setPixelRatio (min (devicePixelRatio win) 2)
                    (setSize (width sz) (height sz) new_renderer),
       ambientLight = new_light 0.0,
       directionalLight = (new_light 0.5)\<lparr>position := Vector3 1 0.25 0\<rparr>,
       rectAreaLight = (new_light 3)\<lparr>position := Vector3 0 0 (- epsilon),
                                     scale := Vector3 (4 / 3 + 0.2) 1.2 1\<rparr>,
       plane = (new_mesh (PlaneGeometry 5 5))
                 \<lparr>rotation := set_x (- pi * 0.5) (Vector3 0 0 0),
                  position := set_y (- 0.65) (Vector3 0 0 0)\<rparr>,
       scene = [AmbientLight, MovingLight1, MovingLight2, MovingLight3, RectAreaLight,
                DirectionalLight, RectAreaLightHelper, Plane, Camera],
       video = None,
       videoTexture = None,
       screen = None,
       init_state = NotStarted,
       frame_requested = False,
       trace = [],
       movingLight1 = new_light 2,
       movingLight2 = new_light 2,
       movingLight3 = new_light 2\<rparr>)"

definition tick2 :: "real \<Rightarrow> session2 \<Rightarrow> session2" where
  "tick2 elapsedTime s0 =
     (let s = emit GetElapsedTime s0;
          s = update_video_texture s;
          movingLight1Angle = elapsedTime * 0.5;
          s = emit (SetPosition MovingLight1 AxisX)
                (s\<lparr>movingLight1 := (movingLight1 s)
                     \<lparr>position := set_x (cos movingLight1Angle * 2) (position (movingLight1 s))\<rparr>\<rparr>);
          s = emit (SetPosition MovingLight1 AxisZ)
                (s\<lparr>movingLight1 := (movingLight1 s)
                     \<lparr>position := set_z (sin movingLight1Angle * 2) (position (movingLight1 s))\<rparr>\<rparr>);
          s = emit (SetPosition MovingLight1 AxisY)
                (s\<lparr>movingLight1 := (movingLight1 s)
                     \<lparr>position := set_y (sin elapsedTime * 1) (position (movingLight1 s))\<rparr>\<rparr>);
          movingLight2Angle = - elapsedTime * 0.5;
          s = emit (SetPosition MovingLight2 AxisX)
                (s\<lparr>movingLight2 := (movingLight2 s)
                     \<lparr>position := set_x (cos movingLight2Angle * 2.5) (position (movingLight2 s))\<rparr>\<rparr>);
          s = emit (SetPosition MovingLight2 AxisZ)
                (s\<lparr>movingLight2 := (movingLight2 s)
                     \<lparr>position := set_z (sin movingLight2Angle * 2.55) (position (movingLight2 s))\<rparr>\<rparr>);
          s = emit (SetPosition MovingLight2 AxisY)
                (s\<lparr>movingLight2 := (movingLight2 s)
                     \<lparr>position := set_y (sin (elapsedTime * 2) + sin (elapsedTime * 2.5))
                                    (position (movingLight2 s))\<rparr>\<rparr>);
          movingLight3Angle = elapsedTime * 0.25;
          s = emit (SetPosition MovingLight3 AxisX)
                (s\<lparr>movingLight3 := (movingLight3 s)
                     \<lparr>position := set_x (cos movingLight3Angle * (2 + sin (elapsedTime * 0.32)))
                                    (position (movingLight3 s))\<rparr>\<rparr>);
          s = emit (SetPosition MovingLight3 AxisZ)
                (s\<lparr>movingLight3 := (movingLight3 s)
                     \<lparr>position := set_z (sin movingLight3Angle * (3 + sin (elapsedTime * 0.5)))
                                    (position (movingLight3 s))\<rparr>\<rparr>);
          s = emit (SetPosition MovingLight3 AxisY)
                (s\<lparr>movingLight3 := (movingLight3 s)
                     \<lparr>position := set_y (sin (elapsedTime * 1.5) + sin (elapsedTime * 1.5))
                                    (position (movingLight3 s))\<rparr>\<rparr>);
          s = update_controls s;
          s = render s;
          s = requestAnimationFrame s
      in s)"

definition init2_resume :: "real \<Rightarrow> session2 \<Rightarrow> session2" where
  "init2_resume elapsedTime s0 =
     (let s = s0\<lparr>videoTexture := Some new_video_texture\<rparr>;
          s = s\<lparr>videoTexture := map_option (\<lambda>tex. tex\<lparr>minFilter := LinearFilter\<rparr>) (videoTexture s)\<rparr>;
          s = s\<lparr>videoTexture := map_option (\<lambda>tex. tex\<lparr>magFilter := LinearFilter\<rparr>) (videoTexture s)\<rparr>;
          s = s\<lparr>videoTexture := map_option (\<lambda>tex. tex\<lparr>format := RGBFormat\<rparr>) (videoTexture s)\<rparr>;
          screen0 = new_mesh (PlaneGeometry (4 / 3) 1);
          screen0 = screen0\<lparr>position := Vector3 0 0 0\<rparr>;
          screen0 = screen0\<lparr>scale := set_x (- 1) (scale screen0)\<rparr>;
          s = s\<lparr>screen := Some screen0, scene := scene_add Screen (scene s)\<rparr>;
          s = tick2 elapsedTime s
      in s\<lparr>init_state := InitDone\<rparr>)"

text \<open>The three sliders of variant 2.\<close>

definition slider2 :: "object_id \<Rightarrow> real \<Rightarrow> session2 \<Rightarrow> session2" where
  "slider2 obj v s =
     (if obj = AmbientLight then
        s\<lparr>ambientLight := (ambientLight s)\<lparr>intensity := slider_value 0 1 v\<rparr>\<rparr>
      else if obj = RectAreaLight then
        s\<lparr>rectAreaLight := (rectAreaLight s)\<lparr>intensity := slider_value 0 10 v\<rparr>\<rparr>
      else if obj = DirectionalLight then
        s\<lparr>directionalLight := (directionalLight s)\<lparr>intensity := slider_value 0 1 v\<rparr>\<rparr>
      else s)"

fun step2 :: "event \<Rightarrow> session2 \<Rightarrow> session2" where
  "step2 (UserMediaGranted stream) s =
     (if init_state s = AwaitUserMedia then setupWebcam_stream stream s else s)"
| "step2 (UserMediaDenied err) s =
     (if init_state s = AwaitUserMedia then s\<lparr>init_state := InitRejected err\<rparr> else s)"
| "step2 (LoadedMetadata t) s =
     (if init_state s = AwaitMetadata then init2_resume t (setupWebcam_finish s) else s)"
| "step2 (AnimationFrame t) s =
     (if frame_requested s then tick2 t (s\<lparr>frame_requested := False\<rparr>) else s)"
| "step2 (Resize win) s = on_resize win s"
| "step2 (SliderInput obj v) s = slider2 obj v s"
| "step2 (PointerInput poses) s = pointer_input poses s"

fun run2 :: "event list \<Rightarrow> session2 \<Rightarrow> session2" where
  "run2 [] s = s"
| "run2 (e # es) s = run2 es (step2 e s)"

definition initial2 :: "window \<Rightarrow> session2" where
  "initial2 win = setupWebcam_begin (module2 win)"


section \<open>The frame loop, the spec's step order, and the states of a session\<close>

text \<open>The steps that one execution of the tick body performs.\<close>

definition tick1_steps :: "real \<Rightarrow> session1 \<Rightarrow> frame_step list" where
  "tick1_steps t s = drop (length (trace s)) (trace (tick1 t s))"

definition tick2_steps :: "real \<Rightarrow> session2 \<Rightarrow> frame_step list" where
  "tick2_steps t s = drop (length (trace s)) (trace (tick2 t s))"

text \<open>
  The order of the specification, in its words: (1) read elapsed time, (2) update the
  animated transforms, (3) mark the video texture dirty, (4) advance the controls,
  (5) render, (6) reschedule. A list of steps is in that order when the numbers never
  decrease along it.
\<close>

fun spec_phase :: "frame_step \<Rightarrow> nat" where
  "spec_phase GetElapsedTime = 1"
| "spec_phase (SetRotation obj a) = 2"
| "spec_phase (SetPosition obj a) = 2"
| "spec_phase SetNeedsUpdate = 3"
| "spec_phase ControlsUpdate = 4"
| "spec_phase Render = 5"
| "spec_phase RequestAnimationFrame = 6"

definition in_spec_order :: "frame_step list \<Rightarrow> bool" where
  "in_spec_order steps = sorted (map spec_phase steps)"

fun is_transform_update :: "frame_step \<Rightarrow> bool" where
  "is_transform_update (SetRotation obj a) = True"
| "is_transform_update (SetPosition obj a) = True"
| "is_transform_update e = False"

text \<open>No transform update comes at or after the first dirty-marking.\<close>

definition updates_precede_dirty :: "frame_step list \<Rightarrow> bool" where
  "updates_precede_dirty steps =
     (filter is_transform_update (dropWhile (\<lambda>e. e \<noteq> SetNeedsUpdate) steps) = [])"

text \<open>
  The frame loop fed a sequence of elapsed times: the browser fires one animation frame
  per time, and the states after each frame are collected.
\<close>

fun frames1 :: "real list \<Rightarrow> session1 \<Rightarrow> session1 list" where
  "frames1 [] s = []"
| "frames1 (t # ts) s = (let s' = step1 (AnimationFrame t) s in s' # frames1 ts s')"

fun frames2 :: "real list \<Rightarrow> session2 \<Rightarrow> session2 list" where
  "frames2 [] s = []"
| "frames2 (t # ts) s = (let s' = step2 (AnimationFrame t) s in s' # frames2 ts s')"

text \<open>
  The transform values that the tick body writes: \<open>(rotation.x, rotation.y)\<close> of sphere,
  cube and torus in variant 1, the positions of the three moving lights in variant 2.
\<close>

definition transforms1 :: "session1 \<Rightarrow> (real \<times> real) list" where
  "transforms1 s =
     [(vec_x (rotation (sphere s)), vec_y (rotation (sphere s))),
      (vec_x (rotation (cube s)), vec_y (rotation (cube s))),
      (vec_x (rotation (torus s)), vec_y (rotation (torus s)))]"

definition transforms2 :: "session2 \<Rightarrow> vector3 list" where
  "transforms2 s =
     [position (movingLight1 s), position (movingLight2 s), position (movingLight3 s)]"

text \<open>The screen mesh as \<^verbatim>\<open>init\<close> leaves it, in variant 1 and in variant 2.\<close>

definition screen1 :: mesh where
  "screen1 = \<lparr>position = Vector3 0 1 (- 5), rotation = Vector3 0 0 0, scale = Vector3 1 1 1,
              geometry = PlaneGeometry (16 / 9) 1\<rparr>"

definition screen2 :: mesh where
  "screen2 = \<lparr>position = Vector3 0 0 0, rotation = Vector3 0 0 0, scale = Vector3 (- 1) 1 1,
              geometry = PlaneGeometry (4 / 3) 1\<rparr>"

text \<open>
  The three kinds of state a session is in: \<^verbatim>\<open>init\<close> still waits (or was never called),
  \<^verbatim>\<open>init\<close> has returned and the frame loop runs, or \<^verbatim>\<open>init\<close> was rejected.
\<close>

definition waiting :: "'a session_scheme \<Rightarrow> bool" where
  "waiting s = (init_state s \<noteq> InitDone \<and> Screen \<notin> set (scene s) \<and> videoTexture s = None \<and>
                screen s = None \<and> \<not> frame_requested s \<and> trace s = [])"

definition started :: "mesh \<Rightarrow> 'a session_scheme \<Rightarrow> bool" where
  "started scr s = (init_state s = InitDone \<and> count_list (scene s) Screen = 1 \<and>
                    videoTexture s \<noteq> None \<and> screen s = Some scr \<and> frame_requested s)"

definition rejected :: "media_error \<Rightarrow> 'a session_scheme \<Rightarrow> bool" where
  "rejected err s = (init_state s = InitRejected err \<and> Screen \<notin> set (scene s) \<and>
                     videoTexture s = None \<and> screen s = None \<and> \<not> frame_requested s \<and>
                     trace s = [])"

text \<open>The screen mesh and the video texture, both absent or both there (the mesh once).\<close>

definition screen_absent :: "'a session_scheme \<Rightarrow> bool" where
  "screen_absent s = (count_list (scene s) Screen = 0 \<and> videoTexture s = None)"

definition screen_present :: "'a session_scheme \<Rightarrow> bool" where
  "screen_present s = (count_list (scene s) Screen = 1 \<and> videoTexture s \<noteq> None)"

text \<open>The events by which the webcam settles.\<close>

fun is_user_media :: "event \<Rightarrow> bool" where
  "is_user_media (UserMediaGranted stream) = True"
| "is_user_media (UserMediaDenied err) = True"
| "is_user_media e = False"

fun is_denied :: "event \<Rightarrow> bool" where
  "is_denied (UserMediaDenied err) = True"
| "is_denied e = False"

fun is_loaded :: "event \<Rightarrow> bool" where
  "is_loaded (LoadedMetadata t) = True"
| "is_loaded e = False"

text \<open>Where variant 1 places its meshes.\<close>

definition layout1 :: "session1 \<Rightarrow> bool" where
  "layout1 s = (position (sphere s) = Vector3 (- 1.5) 0 0 \<and> position (cube s) = Vector3 0 0 0 \<and>
                position (torus s) = Vector3 1.5 0 0 \<and>
                position (plane s) = Vector3 0 (- 0.65) 0 \<and>
                rotation (plane s) = Vector3 (- pi * 0.5) 0 0)"

text \<open>Two concrete windows and event sequences, used to run the scripts on.\<close>

definition window0 :: window where
  "window0 = \<lparr>innerWidth = 800, innerHeight = 600, devicePixelRatio = 3\<rparr>"

definition window1 :: window where
  "window1 = \<lparr>innerWidth = 1024, innerHeight = 768, devicePixelRatio = 1\<rparr>"

definition camera_granted :: "event list" where
  "camera_granted = [UserMediaGranted 0, LoadedMetadata 0]"

definition camera_granted_late :: "event list" where
  "camera_granted_late =
     [Resize window0, UserMediaGranted 7, SliderInput AmbientLight 0.5, LoadedMetadata 5,
      AnimationFrame 6]"

definition camera_denied :: "event list" where
  "camera_denied = [UserMediaDenied NotAllowedError, AnimationFrame 1, AnimationFrame 2]"

definition camera_pending :: "event list" where
  "camera_pending = [Resize window1, AnimationFrame 3, SliderInput AmbientLight 0.5]"

definition stream_attached :: "event list" where
  "stream_attached = [UserMediaGranted 0, Resize window1]"

definition camera_dragged :: "event list" where
  "camera_dragged =
     [UserMediaGranted 0, LoadedMetadata 0,
      PointerInput [(Vector3 0 0 3, Vector3 0 0 0), (Vector3 0 0 4, Vector3 0 0 0)]]"

section \<open>Effects of the handlers\<close>

lemma vec_set [simp]:
  "vec_x (set_x v p) = v" "vec_y (set_x v p) = vec_y p" "vec_z (set_x v p) = vec_z p"
  "vec_x (set_y v p) = vec_x p" "vec_y (set_y v p) = v" "vec_z (set_y v p) = vec_z p"
  "vec_x (set_z v p) = vec_x p" "vec_y (set_z v p) = vec_y p" "vec_z (set_z v p) = v"
  by (cases p; simp)+

lemma set_all: "set_y b (set_z c (set_x a p)) = Vector3 a b c"
  by (cases p) simp

lemmas frame_defs = emit_def update_video_texture_def update_controls_def render_def
  requestAnimationFrame_def

lemmas handler_defs = on_resize_def setupWebcam_stream_def setupWebcam_finish_def
  updateProjectionMatrix_def setSize_def setPixelRatio_def pointer_input_def Let_def

lemmas module_defs = initial1_def module1_def initial2_def module2_def setupWebcam_begin_def
  new_camera_def new_light_def new_mesh_def new_renderer_def new_orbit_controls_def

lemma tick1_effect:
  "tick1 t s =
     s\<lparr>camera := (camera s)
          \<lparr>camera_position := fst (orbit_step (controls s) (camera_position (camera s)))\<rparr>,
       controls := snd (orbit_step (controls s) (camera_position (camera s))),
       sphere := (sphere s)\<lparr>rotation := set_x (0.15 * t) (set_y (0.1 * t) (rotation (sphere s)))\<rparr>,
       cube := (cube s)\<lparr>rotation := set_x (0.15 * t) (set_y (0.1 * t) (rotation (cube s)))\<rparr>,
       torus := (torus s)\<lparr>rotation := set_x (0.15 * t) (set_y (0.1 * t) (rotation (torus s)))\<rparr>,
       videoTexture := map_option (\<lambda>tex. tex\<lparr>needsUpdate := True\<rparr>) (videoTexture s),
       frame_requested := True,
       trace := trace s @
         [GetElapsedTime, SetRotation Sphere AxisY, SetRotation Cube AxisY,
          SetRotation Torus AxisY, SetRotation Sphere AxisX, SetRotation Cube AxisX,
          SetRotation Torus AxisX] @
         (if videoTexture s = None then [] else [SetNeedsUpdate]) @
         [ControlsUpdate, Render, RequestAnimationFrame]\<rparr>"
  by (cases "videoTexture s") (simp_all add: tick1_def frame_defs Let_def)

lemma tick2_effect:
  "tick2 t s =
     s\<lparr>camera := (camera s)
          \<lparr>camera_position := fst (orbit_step (controls s) (camera_position (camera s)))\<rparr>,
       controls := snd (orbit_step (controls s) (camera_position (camera s))),
       movingLight1 := (movingLight1 s)
          \<lparr>position := Vector3 (cos (t * 0.5) * 2) (sin t * 1) (sin (t * 0.5) * 2)\<rparr>,
       movingLight2 := (movingLight2 s)
          \<lparr>position := Vector3 (cos (- t * 0.5) * 2.5) (sin (t * 2) + sin (t * 2.5))
                               (sin (- t * 0.5) * 2.55)\<rparr>,
       movingLight3 := (movingLight3 s)
          \<lparr>position := Vector3 (cos (t * 0.25) * (2 + sin (t * 0.32)))
                               (sin (t * 1.5) + sin (t * 1.5))
                               (sin (t * 0.25) * (3 + sin (t * 0.5)))\<rparr>,
       videoTexture := map_option (\<lambda>tex. tex\<lparr>needsUpdate := True\<rparr>) (videoTexture s),
       frame_requested := True,
       trace := trace s @ [GetElapsedTime] @
         (if videoTexture s = None then [] else [SetNeedsUpdate]) @
         [SetPosition MovingLight1 AxisX, SetPosition MovingLight1 AxisZ,
          SetPosition MovingLight1 AxisY, SetPosition MovingLight2 AxisX,
          SetPosition MovingLight2 AxisZ, SetPosition MovingLight2 AxisY,
          SetPosition MovingLight3 AxisX, SetPosition MovingLight3 AxisZ,
          SetPosition MovingLight3 AxisY, ControlsUpdate, Render, RequestAnimationFrame]\<rparr>"
  by (cases "videoTexture s")
    (simp_all add: tick2_def frame_defs Let_def set_all del: sin_minus cos_minus)


lemma init1_resume_effect:
  "init1_resume t s =
     (tick1 t (s\<lparr>videoTexture := Some (new_video_texture\<lparr>format := RGBFormat\<rparr>),
                screen := Some screen1, scene := scene s @ [Screen]\<rparr>))\<lparr>init_state := InitDone\<rparr>"
  by (simp add: init1_resume_def Let_def new_video_texture_def new_mesh_def screen1_def
      scene_add_def)

lemma init2_resume_effect:
  "init2_resume t s =
     (tick2 t (s\<lparr>videoTexture := Some (new_video_texture\<lparr>format := RGBFormat\<rparr>),
                screen := Some screen2, scene := scene s @ [Screen]\<rparr>))\<lparr>init_state := InitDone\<rparr>"
  by (simp add: init2_resume_def Let_def new_video_texture_def new_mesh_def screen2_def
      scene_add_def)

lemma tick1_steps_eq:
  "tick1_steps t s =
     [GetElapsedTime, SetRotation Sphere AxisY, SetRotation Cube AxisY, SetRotation Torus AxisY,
      SetRotation Sphere AxisX, SetRotation Cube AxisX, SetRotation Torus AxisX] @
     (if videoTexture s = None then [] else [SetNeedsUpdate]) @
     [ControlsUpdate, Render, RequestAnimationFrame]"
  by (simp add: tick1_steps_def tick1_effect)

lemma tick2_steps_eq:
  "tick2_steps t s =
     [GetElapsedTime] @ (if videoTexture s = None then [] else [SetNeedsUpdate]) @
     [SetPosition MovingLight1 AxisX, SetPosition MovingLight1 AxisZ,
      SetPosition MovingLight1 AxisY, SetPosition MovingLight2 AxisX,
      SetPosition MovingLight2 AxisZ, SetPosition MovingLight2 AxisY,
      SetPosition MovingLight3 AxisX, SetPosition MovingLight3 AxisZ,
      SetPosition MovingLight3 AxisY, ControlsUpdate, Render, RequestAnimationFrame]"
  by (simp add: tick2_steps_def tick2_effect)

section \<open>Invariants of a session\<close>

lemma run1_append: "run1 (es @ es') s = run1 es' (run1 es s)"
  by (induction es arbitrary: s) simp_all

lemma run2_append: "run2 (es @ es') s = run2 es' (run2 es s)"
  by (induction es arbitrary: s) simp_all

lemma started_step1: "started scr s \<Longrightarrow> started scr (step1 e s)"
  by (cases e) (auto simp: started_def handler_defs slider1_def tick1_effect)

lemma started_step2: "started scr s \<Longrightarrow> started scr (step2 e s)"
  by (cases e) (auto simp: started_def handler_defs slider2_def tick2_effect)

lemma waiting_step1: "waiting s \<Longrightarrow> waiting (step1 e s) \<or> started screen1 (step1 e s)"
  by (cases e)
    (auto simp: started_def waiting_def handler_defs slider1_def tick1_effect init1_resume_effect)

lemma waiting_step2: "waiting s \<Longrightarrow> waiting (step2 e s) \<or> started screen2 (step2 e s)"
  by (cases e)
    (auto simp: started_def waiting_def handler_defs slider2_def tick2_effect init2_resume_effect)

lemma started_run1: "started scr s \<Longrightarrow> started scr (run1 es s)"
  by (induction es arbitrary: s) (simp_all add: started_step1)

lemma started_run2: "started scr s \<Longrightarrow> started scr (run2 es s)"
  by (induction es arbitrary: s) (simp_all add: started_step2)

lemma waiting_run1: "waiting s \<Longrightarrow> waiting (run1 es s) \<or> started screen1 (run1 es s)"
proof (induction es arbitrary: s)
  case Nil
  then show ?case by simp
next
  case (Cons e es)
  from waiting_step1 [OF Cons.prems, of e] show ?case
  proof
    assume "waiting (step1 e s)"
    then show ?thesis using Cons.IH by simp
  next
    assume "started screen1 (step1 e s)"
    then show ?thesis using started_run1 by simp
  qed
qed

lemma waiting_run2: "waiting s \<Longrightarrow> waiting (run2 es s) \<or> started screen2 (run2 es s)"
proof (induction es arbitrary: s)
  case Nil
  then show ?case by simp
next
  case (Cons e es)
  from waiting_step2 [OF Cons.prems, of e] show ?case
  proof
    assume "waiting (step2 e s)"
    then show ?thesis using Cons.IH by simp
  next
    assume "started screen2 (step2 e s)"
    then show ?thesis using started_run2 by simp
  qed
qed

lemma waiting_initial1: "waiting (initial1 win)"
  by (simp add: waiting_def initial1_def module1_def setupWebcam_begin_def Let_def)

lemma waiting_initial2: "waiting (initial2 win)"
  by (simp add: waiting_def initial2_def module2_def setupWebcam_begin_def Let_def)

lemma reachable1: "waiting (run1 es (initial1 win)) \<or> started screen1 (run1 es (initial1 win))"
  by (rule waiting_run1 [OF waiting_initial1])

lemma reachable2: "waiting (run2 es (initial2 win)) \<or> started screen2 (run2 es (initial2 win))"
  by (rule waiting_run2 [OF waiting_initial2])

lemma rejected_step1: "rejected err s \<Longrightarrow> rejected err (step1 e s)"
  by (cases e) (auto simp: rejected_def handler_defs slider1_def)

lemma rejected_step2: "rejected err s \<Longrightarrow> rejected err (step2 e s)"
  by (cases e) (auto simp: rejected_def handler_defs slider2_def)

lemma rejected_run1: "rejected err s \<Longrightarrow> rejected err (run1 es s)"
  by (induction es arbitrary: s) (simp_all add: rejected_step1)

lemma rejected_run2: "rejected err s \<Longrightarrow> rejected err (run2 es s)"
  by (induction es arbitrary: s) (simp_all add: rejected_step2)

text \<open>A denial that arrives while the camera request is pending rejects \<^verbatim>\<open>init\<close>.\<close>

lemma denied_while_pending1:
  "waiting s \<Longrightarrow> init_state s = AwaitUserMedia \<Longrightarrow> rejected err (step1 (UserMediaDenied err) s)"
  by (simp add: waiting_def rejected_def)

lemma denied_while_pending2:
  "waiting s \<Longrightarrow> init_state s = AwaitUserMedia \<Longrightarrow> rejected err (step2 (UserMediaDenied err) s)"
  by (simp add: waiting_def rejected_def)

lemma pending_step1:
  "waiting s \<Longrightarrow> init_state s = AwaitUserMedia \<Longrightarrow> \<not> is_user_media e \<Longrightarrow>
   waiting (step1 e s) \<and> init_state (step1 e s) = AwaitUserMedia"
  by (cases e) (auto simp: waiting_def handler_defs slider1_def)

lemma pending_step2:
  "waiting s \<Longrightarrow> init_state s = AwaitUserMedia \<Longrightarrow> \<not> is_user_media e \<Longrightarrow>
   waiting (step2 e s) \<and> init_state (step2 e s) = AwaitUserMedia"
  by (cases e) (auto simp: waiting_def handler_defs slider2_def)

lemma pending_run1:
  "waiting s \<Longrightarrow> init_state s = AwaitUserMedia \<Longrightarrow> filter is_user_media es = [] \<Longrightarrow>
   init_state (run1 es s) = AwaitUserMedia"
proof (induction es arbitrary: s)
  case Nil
  then show ?case by simp
next
  case (Cons e es)
  from Cons.prems(3) have e: "\<not> is_user_media e" and es: "filter is_user_media es = []"
    by (simp_all split: if_splits)
  from pending_step1 [OF Cons.prems(1,2) e] Cons.IH [OF _ _ es] show ?case
    by simp
qed

lemma pending_run2:
  "waiting s \<Longrightarrow> init_state s = AwaitUserMedia \<Longrightarrow> filter is_user_media es = [] \<Longrightarrow>
   init_state (run2 es s) = AwaitUserMedia"
proof (induction es arbitrary: s)
  case Nil
  then show ?case by simp
next
  case (Cons e es)
  from Cons.prems(3) have e: "\<not> is_user_media e" and es: "filter is_user_media es = []"
    by (simp_all split: if_splits)
  from pending_step2 [OF Cons.prems(1,2) e] Cons.IH [OF _ _ es] show ?case
    by simp
qed

lemma initial_pending:
  "init_state (initial1 win) = AwaitUserMedia" "init_state (initial2 win) = AwaitUserMedia"
  by (simp_all add: initial1_def initial2_def setupWebcam_begin_def)

text \<open>Without the metadata event the webcam has not resolved and \<^verbatim>\<open>init\<close> has not returned.\<close>

lemma unresolved_step1: "waiting s \<Longrightarrow> \<not> is_loaded e \<Longrightarrow> waiting (step1 e s)"
  by (cases e) (auto simp: waiting_def handler_defs slider1_def)

lemma unresolved_step2: "waiting s \<Longrightarrow> \<not> is_loaded e \<Longrightarrow> waiting (step2 e s)"
  by (cases e) (auto simp: waiting_def handler_defs slider2_def)

lemma unresolved_run1: "waiting s \<Longrightarrow> filter is_loaded es = [] \<Longrightarrow> waiting (run1 es s)"
proof (induction es arbitrary: s)
  case Nil
  then show ?case by simp
next
  case (Cons e es)
  from Cons.prems(2) have e: "\<not> is_loaded e" and es: "filter is_loaded es = []"
    by (simp_all split: if_splits)
  from unresolved_step1 [OF Cons.prems(1) e] Cons.IH [OF _ es] show ?case
    by simp
qed

lemma unresolved_run2: "waiting s \<Longrightarrow> filter is_loaded es = [] \<Longrightarrow> waiting (run2 es s)"
proof (induction es arbitrary: s)
  case Nil
  then show ?case by simp
next
  case (Cons e es)
  from Cons.prems(2) have e: "\<not> is_loaded e" and es: "filter is_loaded es = []"
    by (simp_all split: if_splits)
  from unresolved_step2 [OF Cons.prems(1) e] Cons.IH [OF _ es] show ?case
    by simp
qed

text \<open>The metadata event, arriving while \<^verbatim>\<open>init\<close> waits for it, completes \<^verbatim>\<open>init\<close>.\<close>

lemma loaded_step1:
  "waiting s \<Longrightarrow> init_state s = AwaitMetadata \<Longrightarrow> started screen1 (step1 (LoadedMetadata t) s)"
  by (auto simp: started_def waiting_def handler_defs tick1_effect init1_resume_effect)

lemma loaded_step2:
  "waiting s \<Longrightarrow> init_state s = AwaitMetadata \<Longrightarrow> started screen2 (step2 (LoadedMetadata t) s)"
  by (auto simp: started_def waiting_def handler_defs tick2_effect init2_resume_effect)

text \<open>
  How \<^verbatim>\<open>init\<close> advances: without a denial it is never rejected; after the stream was
  granted it waits for the metadata or is done; the metadata event then leaves it done.
\<close>

lemma alive_step1:
  "init_state s = AwaitUserMedia \<or> init_state s = AwaitMetadata \<or> init_state s = InitDone \<Longrightarrow>
   \<not> is_denied e \<Longrightarrow>
   init_state (step1 e s) = AwaitUserMedia \<or> init_state (step1 e s) = AwaitMetadata \<or>
   init_state (step1 e s) = InitDone"
  by (cases e) (auto simp: handler_defs slider1_def tick1_effect init1_resume_effect)

lemma alive_step2:
  "init_state s = AwaitUserMedia \<or> init_state s = AwaitMetadata \<or> init_state s = InitDone \<Longrightarrow>
   \<not> is_denied e \<Longrightarrow>
   init_state (step2 e s) = AwaitUserMedia \<or> init_state (step2 e s) = AwaitMetadata \<or>
   init_state (step2 e s) = InitDone"
  by (cases e) (auto simp: handler_defs slider2_def tick2_effect init2_resume_effect)

lemma alive_run1:
  "init_state s = AwaitUserMedia \<or> init_state s = AwaitMetadata \<or> init_state s = InitDone \<Longrightarrow>
   filter is_denied es = [] \<Longrightarrow>
   init_state (run1 es s) = AwaitUserMedia \<or> init_state (run1 es s) = AwaitMetadata \<or>
   init_state (run1 es s) = InitDone"
proof (induction es arbitrary: s)
  case Nil
  then show ?case by simp
next
  case (Cons e es)
  from Cons.prems(2) have e: "\<not> is_denied e" and es: "filter is_denied es = []"
    by (simp_all split: if_splits)
  from Cons.IH [OF alive_step1 [OF Cons.prems(1) e] es] show ?case
    by simp
qed

lemma alive_run2:
  "init_state s = AwaitUserMedia \<or> init_state s = AwaitMetadata \<or> init_state s = InitDone \<Longrightarrow>
   filter is_denied es = [] \<Longrightarrow>
   init_state (run2 es s) = AwaitUserMedia \<or> init_state (run2 es s) = AwaitMetadata \<or>
   init_state (run2 es s) = InitDone"
proof (induction es arbitrary: s)
  case Nil
  then show ?case by simp
next
  case (Cons e es)
  from Cons.prems(2) have e: "\<not> is_denied e" and es: "filter is_denied es = []"
    by (simp_all split: if_splits)
  from Cons.IH [OF alive_step2 [OF Cons.prems(1) e] es] show ?case
    by simp
qed

lemma granted_step1:
  "init_state s = AwaitMetadata \<or> init_state s = InitDone \<Longrightarrow>
   init_state (step1 e s) = AwaitMetadata \<or> init_state (step1 e s) = InitDone"
  by (cases e) (auto simp: handler_defs slider1_def tick1_effect init1_resume_effect)

lemma granted_step2:
  "init_state s = AwaitMetadata \<or> init_state s = InitDone \<Longrightarrow>
   init_state (step2 e s) = AwaitMetadata \<or> init_state (step2 e s) = InitDone"
  by (cases e) (auto simp: handler_defs slider2_def tick2_effect init2_resume_effect)

lemma granted_run1:
  "init_state s = AwaitMetadata \<or> init_state s = InitDone \<Longrightarrow>
   init_state (run1 es s) = AwaitMetadata \<or> init_state (run1 es s) = InitDone"
  by (induction es arbitrary: s) (simp_all add: granted_step1)

lemma granted_run2:
  "init_state s = AwaitMetadata \<or> init_state s = InitDone \<Longrightarrow>
   init_state (run2 es s) = AwaitMetadata \<or> init_state (run2 es s) = InitDone"
  by (induction es arbitrary: s) (simp_all add: granted_step2)

lemma grant_then_load1:
  assumes "init_state s = AwaitUserMedia \<or> init_state s = AwaitMetadata \<or> init_state s = InitDone"
  shows "init_state (run1 (UserMediaGranted st # es @ [LoadedMetadata t]) s) = InitDone"
proof -
  have "init_state (step1 (UserMediaGranted st) s) = AwaitMetadata \<or>
        init_state (step1 (UserMediaGranted st) s) = InitDone"
    using assms by (auto simp: handler_defs)
  from granted_run1 [OF this, of es]
  show ?thesis
    by (auto simp: run1_append init1_resume_effect)
qed

lemma grant_then_load2:
  assumes "init_state s = AwaitUserMedia \<or> init_state s = AwaitMetadata \<or> init_state s = InitDone"
  shows "init_state (run2 (UserMediaGranted st # es @ [LoadedMetadata t]) s) = InitDone"
proof -
  have "init_state (step2 (UserMediaGranted st) s) = AwaitMetadata \<or>
        init_state (step2 (UserMediaGranted st) s) = InitDone"
    using assms by (auto simp: handler_defs)
  from granted_run2 [OF this, of es]
  show ?thesis
    by (auto simp: run2_append init2_resume_effect)
qed

lemma layout1_step1: "layout1 s \<Longrightarrow> layout1 (step1 e s)"
  by (cases e)
    (auto simp: layout1_def handler_defs slider1_def tick1_effect init1_resume_effect)

lemma layout1_run1: "layout1 s \<Longrightarrow> layout1 (run1 es s)"
  by (induction es arbitrary: s) (simp_all add: layout1_step1)

lemma layout1_initial1: "layout1 (initial1 win)"
  by (simp add: layout1_def initial1_def module1_def setupWebcam_begin_def Let_def new_mesh_def)

lemma frames1_transforms:
  "frame_requested s \<Longrightarrow>
   map transforms1 (frames1 ts s) =
     map (\<lambda>t. [(0.15 * t, 0.1 * t), (0.15 * t, 0.1 * t), (0.15 * t, 0.1 * t)]) ts"
  by (induction ts arbitrary: s) (simp_all add: Let_def tick1_effect transforms1_def)

lemma frames2_transforms:
  "frame_requested s \<Longrightarrow>
   map transforms2 (frames2 ts s) =
     map (\<lambda>t. [Vector3 (cos (t * 0.5) * 2) (sin t * 1) (sin (t * 0.5) * 2),
               Vector3 (cos (- t * 0.5) * 2.5) (sin (t * 2) + sin (t * 2.5))
                       (sin (- t * 0.5) * 2.55),
               Vector3 (cos (t * 0.25) * (2 + sin (t * 0.32)))
                       (sin (t * 1.5) + sin (t * 1.5))
                       (sin (t * 0.25) * (3 + sin (t * 0.5)))]) ts"
  by (induction ts arbitrary: s) (simp_all add: Let_def tick2_effect transforms2_def)

text \<open>The concrete runs.\<close>

lemma granted_done1:
  "init_state (run1 camera_granted (initial1 window0)) = InitDone"
  "init_state (run1 camera_granted_late (initial1 window1)) = InitDone"
  "init_state (run1 camera_dragged (initial1 window0)) = InitDone"
  by (simp_all add: camera_granted_def camera_granted_late_def camera_dragged_def
      initial1_def setupWebcam_begin_def handler_defs init1_resume_effect tick1_effect slider1_def)

lemma granted_done2:
  "init_state (run2 camera_granted (initial2 window0)) = InitDone"
  "init_state (run2 camera_granted_late (initial2 window1)) = InitDone"
  by (simp_all add: camera_granted_def camera_granted_late_def
      initial2_def setupWebcam_begin_def handler_defs init2_resume_effect tick2_effect slider2_def)

lemma granted_started1:
  "started screen1 (run1 camera_granted (initial1 window0))"
  "started screen1 (run1 camera_granted_late (initial1 window1))"
  "started screen1 (run1 camera_dragged (initial1 window0))"
  using reachable1 [of camera_granted window0] reachable1 [of camera_granted_late window1]
    reachable1 [of camera_dragged window0]
  by (simp_all add: granted_done1 waiting_def)

lemma granted_started2:
  "started screen2 (run2 camera_granted (initial2 window0))"
  "started screen2 (run2 camera_granted_late (initial2 window1))"
  using reachable2 [of camera_granted window0] reachable2 [of camera_granted_late window1]
  by (simp_all add: granted_done2 waiting_def)

lemma stream_attached_state:
  "init_state (run1 stream_attached (initial1 window0)) = AwaitMetadata"
  "init_state (run2 stream_attached (initial2 window0)) = AwaitMetadata"
  by (simp_all add: stream_attached_def initial1_def initial2_def setupWebcam_begin_def
      handler_defs)

lemma camera_pending_state:
  "init_state (run1 camera_pending (initial1 window0)) = AwaitUserMedia"
  "init_state (run2 camera_pending (initial2 window0)) = AwaitUserMedia"
  by (simp_all add: camera_pending_def initial1_def initial2_def module1_def module2_def
      setupWebcam_begin_def handler_defs slider1_def slider2_def)

lemma dragged_camera:
  "camera_position (camera (run1 camera_dragged (initial1 window0))) = Vector3 1 1 2"
  "trajectory (controls (run1 camera_dragged (initial1 window0))) =
     [(Vector3 0 0 3, Vector3 0 0 0), (Vector3 0 0 4, Vector3 0 0 0)]"
  by (simp_all add: camera_dragged_def module_defs handler_defs init1_resume_effect tick1_effect
      orbit_step_def)

section \<open>The claims\<close>

text \<open>
  C1. In variant 2, one execution of the tick body at elapsed time \<open>t\<close> sets the position
  of movingLight1 to \<open>(2 cos(0.5t), sin t, 2 sin(0.5t))\<close>, of movingLight2 to
  \<open>(2.5 cos(-0.5t), sin(2t) + sin(2.5t), 2.55 sin(-0.5t))\<close> and of movingLight3 to
  \<open>((2 + sin(0.32t)) cos(0.25t), 2 sin(1.5t), (3 + sin(0.5t)) sin(0.25t))\<close>, whatever the
  session was before. The code writes the y of movingLight3 as
  \<open>sin(1.5t) + sin(1.5t)\<close>, which is \<open>2 sin(1.5t)\<close>.
\<close>

theorem tick2_moving_light_positions:
  "position (movingLight1 (tick2 t s)) =
     Vector3 (2 * cos (0.5 * t)) (sin t) (2 * sin (0.5 * t)) \<and>
   position (movingLight2 (tick2 t s)) =
     Vector3 (2.5 * cos (- 0.5 * t)) (sin (2 * t) + sin (2.5 * t)) (2.55 * sin (- 0.5 * t)) \<and>
   position (movingLight3 (tick2 t s)) =
     Vector3 ((2 + sin (0.32 * t)) * cos (0.25 * t)) (2 * sin (1.5 * t))
             ((3 + sin (0.5 * t)) * sin (0.25 * t)) \<and>
   vec_y (position (movingLight3 (tick2 t s))) = 2 * sin (1.5 * t)"
  by (simp add: tick2_effect mult.commute)

text \<open>
  C2. In variant 1, one execution of the tick body at elapsed time \<open>t\<close> sets rotation.y
  to \<open>0.1 t\<close> and rotation.x to \<open>0.15 t\<close> on each of sphere, cube and torus, so the three
  meshes agree on both angles after any tick. This holds for every \<open>t\<close>, in particular
  for every \<open>t \<ge> 0\<close>.
\<close>

theorem tick1_mesh_rotations:
  "vec_y (rotation (sphere (tick1 t s))) = 0.1 * t \<and>
   vec_y (rotation (cube (tick1 t s))) = 0.1 * t \<and>
   vec_y (rotation (torus (tick1 t s))) = 0.1 * t \<and>
   vec_x (rotation (sphere (tick1 t s))) = 0.15 * t \<and>
   vec_x (rotation (cube (tick1 t s))) = 0.15 * t \<and>
   vec_x (rotation (torus (tick1 t s))) = 0.15 * t \<and>
   vec_x (rotation (sphere (tick1 t s))) = vec_x (rotation (cube (tick1 t s))) \<and>
   vec_x (rotation (cube (tick1 t s))) = vec_x (rotation (torus (tick1 t s))) \<and>
   vec_y (rotation (sphere (tick1 t s))) = vec_y (rotation (cube (tick1 t s))) \<and>
   vec_y (rotation (cube (tick1 t s))) = vec_y (rotation (torus (tick1 t s)))"
  by (simp add: tick1_effect)

text \<open>
  C3, as the code has it. If the camera request is rejected with \<open>err\<close> while it is
  pending, whatever happened on the page before, then after any further events \<^verbatim>\<open>init\<close>
  stays rejected with that same error, the screen mesh is not in the scene, there is no
  video texture, and the frame loop never starts: no animation frame is requested and the
  tick body has performed no step, in particular no render. The tick is first called at
  the end of \<^verbatim>\<open>init\<close>, behind the \<^verbatim>\<open>await\<close>. The request is pending when the page
  starts and as long as no grant or denial has arrived.
\<close>

theorem denied_camera_never_starts_frame_loop:
  "init_state (initial1 win) = AwaitUserMedia \<and>
   init_state (initial2 win) = AwaitUserMedia \<and>
   (filter is_user_media es0 = [] \<longrightarrow>
      init_state (run1 es0 (initial1 win)) = AwaitUserMedia \<and>
      init_state (run2 es0 (initial2 win)) = AwaitUserMedia) \<and>
   (init_state (run1 es0 (initial1 win)) = AwaitUserMedia \<longrightarrow>
      init_state (run1 (es0 @ UserMediaDenied err # es) (initial1 win)) = InitRejected err \<and>
      Screen \<notin> set (scene (run1 (es0 @ UserMediaDenied err # es) (initial1 win))) \<and>
      videoTexture (run1 (es0 @ UserMediaDenied err # es) (initial1 win)) = None \<and>
      \<not> frame_requested (run1 (es0 @ UserMediaDenied err # es) (initial1 win)) \<and>
      trace (run1 (es0 @ UserMediaDenied err # es) (initial1 win)) = []) \<and>
   (init_state (run2 es0 (initial2 win)) = AwaitUserMedia \<longrightarrow>
      init_state (run2 (es0 @ UserMediaDenied err # es) (initial2 win)) = InitRejected err \<and>
      Screen \<notin> set (scene (run2 (es0 @ UserMediaDenied err # es) (initial2 win))) \<and>
      videoTexture (run2 (es0 @ UserMediaDenied err # es) (initial2 win)) = None \<and>
      \<not> frame_requested (run2 (es0 @ UserMediaDenied err # es) (initial2 win)) \<and>
      trace (run2 (es0 @ UserMediaDenied err # es) (initial2 win)) = [])"
proof -
  have pending: "filter is_user_media es0 = [] \<longrightarrow>
      init_state (run1 es0 (initial1 win)) = AwaitUserMedia \<and>
      init_state (run2 es0 (initial2 win)) = AwaitUserMedia"
    using pending_run1 [OF waiting_initial1 initial_pending(1), of es0 win]
      pending_run2 [OF waiting_initial2 initial_pending(2), of es0 win]
    by simp
  have one: "rejected err (run1 (es0 @ UserMediaDenied err # es) (initial1 win))"
    if p: "init_state (run1 es0 (initial1 win)) = AwaitUserMedia"
  proof -
    from reachable1 [of es0 win] p have "waiting (run1 es0 (initial1 win))"
      by (auto simp: started_def)
    from rejected_run1 [OF denied_while_pending1 [OF this p], of err es]
    show ?thesis by (simp add: run1_append)
  qed
  have two: "rejected err (run2 (es0 @ UserMediaDenied err # es) (initial2 win))"
    if p: "init_state (run2 es0 (initial2 win)) = AwaitUserMedia"
  proof -
    from reachable2 [of es0 win] p have "waiting (run2 es0 (initial2 win))"
      by (auto simp: started_def)
    from rejected_run2 [OF denied_while_pending2 [OF this p], of err es]
    show ?thesis by (simp add: run2_append)
  qed
  from pending one two show ?thesis
    unfolding rejected_def by (simp add: initial_pending)
qed

theorem denied_camera_never_starts_frame_loop_witness:
  "filter is_user_media camera_pending = [] \<and>
   init_state (run1 camera_pending (initial1 window0)) = AwaitUserMedia \<and>
   init_state (run2 camera_pending (initial2 window0)) = AwaitUserMedia \<and>
   init_state (run1 (camera_pending @ UserMediaDenied NotFoundError # camera_granted)
                 (initial1 window0)) = InitRejected NotFoundError \<and>
   trace (run1 (camera_pending @ UserMediaDenied NotFoundError # camera_granted)
            (initial1 window0)) = [] \<and>
   init_state (run2 (camera_pending @ UserMediaDenied NotFoundError # camera_granted)
                 (initial2 window0)) = InitRejected NotFoundError \<and>
   trace (run2 (camera_pending @ UserMediaDenied NotFoundError # camera_granted)
            (initial2 window0)) = []"
proof -
  have h: "filter is_user_media camera_pending = []"
    by (simp add: camera_pending_def)
  from h camera_pending_state
    denied_camera_never_starts_frame_loop
      [of window0 camera_pending NotFoundError camera_granted]
  show ?thesis
    by blast
qed

text \<open>
  C3 as stated fails: after a denied camera request and two animation frames, nothing was
  rendered and no frame is scheduled, in either variant.
\<close>

theorem denied_camera_counterexample:
  "Render \<notin> set (trace (run1 camera_denied (initial1 window0))) \<and>
   \<not> frame_requested (run1 camera_denied (initial1 window0)) \<and>
   Render \<notin> set (trace (run2 camera_denied (initial2 window0))) \<and>
   \<not> frame_requested (run2 camera_denied (initial2 window0))"
  by (simp add: camera_denied_def initial1_def module1_def initial2_def module2_def
      setupWebcam_begin_def Let_def)

text \<open>
  C4, as the code has it. In variant 1 the tick body reads the elapsed time, writes the six
  rotations, marks the video texture dirty if there is one, advances the controls, renders
  once and reschedules itself: the order of the specification, every transform update
  before the dirty-marking. In variant 2 the tick body reads the elapsed time, marks the
  video texture dirty if there is one, and only then writes the nine light coordinates,
  advances the controls, renders once and reschedules itself.
\<close>

theorem tick_step_order:
  "tick1_steps t s =
     [GetElapsedTime, SetRotation Sphere AxisY, SetRotation Cube AxisY, SetRotation Torus AxisY,
      SetRotation Sphere AxisX, SetRotation Cube AxisX, SetRotation Torus AxisX] @
     (if videoTexture s = None then [] else [SetNeedsUpdate]) @
     [ControlsUpdate, Render, RequestAnimationFrame] \<and>
   in_spec_order (tick1_steps t s) \<and>
   updates_precede_dirty (tick1_steps t s) \<and>
   tick2_steps t s' =
     [GetElapsedTime] @ (if videoTexture s' = None then [] else [SetNeedsUpdate]) @
     [SetPosition MovingLight1 AxisX, SetPosition MovingLight1 AxisZ,
      SetPosition MovingLight1 AxisY, SetPosition MovingLight2 AxisX,
      SetPosition MovingLight2 AxisZ, SetPosition MovingLight2 AxisY,
      SetPosition MovingLight3 AxisX, SetPosition MovingLight3 AxisZ,
      SetPosition MovingLight3 AxisY, ControlsUpdate, Render, RequestAnimationFrame]"
  by (simp add: tick1_steps_eq tick2_steps_eq in_spec_order_def updates_precede_dirty_def)

theorem tick_step_order_witness:
  "tick1_steps 1 (run1 camera_granted (initial1 window0)) =
     [GetElapsedTime, SetRotation Sphere AxisY, SetRotation Cube AxisY, SetRotation Torus AxisY,
      SetRotation Sphere AxisX, SetRotation Cube AxisX, SetRotation Torus AxisX,
      SetNeedsUpdate, ControlsUpdate, Render, RequestAnimationFrame] \<and>
   tick2_steps 1 (run2 camera_granted (initial2 window0)) =
     [GetElapsedTime, SetNeedsUpdate,
      SetPosition MovingLight1 AxisX, SetPosition MovingLight1 AxisZ,
      SetPosition MovingLight1 AxisY, SetPosition MovingLight2 AxisX,
      SetPosition MovingLight2 AxisZ, SetPosition MovingLight2 AxisY,
      SetPosition MovingLight3 AxisX, SetPosition MovingLight3 AxisZ,
      SetPosition MovingLight3 AxisY, ControlsUpdate, Render, RequestAnimationFrame]"
  using tick_step_order [of 1 "run1 camera_granted (initial1 window0)"
      "run2 camera_granted (initial2 window0)"]
    granted_started1(1) granted_started2(1)
  by (simp add: started_def)

text \<open>
  C4 as stated fails in variant 2: the steps of a tick in the running session are not in
  the order of the specification, and the light updates come after the dirty-marking.
\<close>

theorem tick2_order_counterexample:
  "\<not> in_spec_order (tick2_steps 0 (run2 camera_granted (initial2 window0))) \<and>
   \<not> updates_precede_dirty (tick2_steps 0 (run2 camera_granted (initial2 window0)))"
  using granted_started2(1)
  by (simp add: started_def tick2_steps_eq in_spec_order_def updates_precede_dirty_def)

text \<open>
  C5. For a window of size \<open>(W, H)\<close> with \<open>H \<noteq> 0\<close>, the resize handler leaves the camera's
  aspect (and the aspect of its projection) at \<open>W / H\<close>, the render surface at \<open>(W, H)\<close>
  and the pixel ratio at \<open>min(devicePixelRatio, 2)\<close>, in both variants and from any state.
\<close>

theorem resize_sets_aspect_and_surface:
  assumes "innerHeight win \<noteq> 0"
  shows "aspect (camera (step1 (Resize win) s)) = Finite (innerWidth win / innerHeight win) \<and>
         projection_aspect (camera (step1 (Resize win) s)) =
           Finite (innerWidth win / innerHeight win) \<and>
         surface_width (renderer (step1 (Resize win) s)) = innerWidth win \<and>
         surface_height (renderer (step1 (Resize win) s)) = innerHeight win \<and>
         pixelRatio (renderer (step1 (Resize win) s)) = min (devicePixelRatio win) 2 \<and>
         aspect (camera (step2 (Resize win) s')) = Finite (innerWidth win / innerHeight win) \<and>
         projection_aspect (camera (step2 (Resize win) s')) =
           Finite (innerWidth win / innerHeight win) \<and>
         surface_width (renderer (step2 (Resize win) s')) = innerWidth win \<and>
         surface_height (renderer (step2 (Resize win) s')) = innerHeight win \<and>
         pixelRatio (renderer (step2 (Resize win) s')) = min (devicePixelRatio win) 2"
  using assms by (simp add: handler_defs js_div_def)

theorem resize_sets_aspect_and_surface_witness:
  "innerHeight window0 \<noteq> 0 \<and>
   aspect (camera (step1 (Resize window0) (initial1 window1))) = Finite (4 / 3) \<and>
   surface_width (renderer (step1 (Resize window0) (initial1 window1))) = 800 \<and>
   surface_height (renderer (step1 (Resize window0) (initial1 window1))) = 600 \<and>
   pixelRatio (renderer (step1 (Resize window0) (initial1 window1))) = 2 \<and>
   aspect (camera (step2 (Resize window0) (initial2 window1))) = Finite (4 / 3) \<and>
   surface_width (renderer (step2 (Resize window0) (initial2 window1))) = 800 \<and>
   surface_height (renderer (step2 (Resize window0) (initial2 window1))) = 600 \<and>
   pixelRatio (renderer (step2 (Resize window0) (initial2 window1))) = 2"
proof -
  have h: "innerHeight window0 \<noteq> 0"
    by (simp add: window0_def)
  show ?thesis
    using h resize_sets_aspect_and_surface [OF h, of "initial1 window1" "initial2 window1"]
    by (simp add: window0_def)
qed

text \<open>
  C6. For every window and every sequence of events from the page's start:
  as long as \<^verbatim>\<open>init\<close> has not returned, and in particular as long as no metadata event has
  arrived (the webcam has not resolved), no screen mesh is in the scene and there is no
  video texture. When the metadata event arrives while \<^verbatim>\<open>init\<close> waits for it, and whenever
  a grant and later a metadata event arrive on a page that saw no denial before, then
  after any further events (frames, resizes, slider and pointer input, repeated camera
  events) \<^verbatim>\<open>init\<close> is done, exactly one screen mesh is in the scene and the video texture
  exists. Once \<^verbatim>\<open>init\<close> is done, this stays so after any further events.
\<close>

theorem screen_and_texture_follow_capture:
  "(init_state (run1 es (initial1 win)) \<noteq> InitDone \<longrightarrow>
      screen_absent (run1 es (initial1 win))) \<and>
   (init_state (run1 es (initial1 win)) = InitDone \<longrightarrow>
      init_state (run1 es' (run1 es (initial1 win))) = InitDone \<and>
      screen_present (run1 es' (run1 es (initial1 win)))) \<and>
   (filter is_loaded es = [] \<longrightarrow>
      init_state (run1 es (initial1 win)) \<noteq> InitDone \<and>
      screen_absent (run1 es (initial1 win))) \<and>
   (init_state (run1 es (initial1 win)) = AwaitMetadata \<longrightarrow>
      init_state (run1 (es @ LoadedMetadata t # es') (initial1 win)) = InitDone \<and>
      screen_present (run1 (es @ LoadedMetadata t # es') (initial1 win))) \<and>
   (filter is_denied es = [] \<longrightarrow>
      init_state (run1 (es @ UserMediaGranted st # es1 @ LoadedMetadata t # es')
                    (initial1 win)) = InitDone \<and>
      screen_present (run1 (es @ UserMediaGranted st # es1 @ LoadedMetadata t # es')
                        (initial1 win))) \<and>
   (init_state (run2 es (initial2 win)) \<noteq> InitDone \<longrightarrow>
      screen_absent (run2 es (initial2 win))) \<and>
   (init_state (run2 es (initial2 win)) = InitDone \<longrightarrow>
      init_state (run2 es' (run2 es (initial2 win))) = InitDone \<and>
      screen_present (run2 es' (run2 es (initial2 win)))) \<and>
   (filter is_loaded es = [] \<longrightarrow>
      init_state (run2 es (initial2 win)) \<noteq> InitDone \<and>
      screen_absent (run2 es (initial2 win))) \<and>
   (init_state (run2 es (initial2 win)) = AwaitMetadata \<longrightarrow>
      init_state (run2 (es @ LoadedMetadata t # es') (initial2 win)) = InitDone \<and>
      screen_present (run2 (es @ LoadedMetadata t # es') (initial2 win))) \<and>
   (filter is_denied es = [] \<longrightarrow>
      init_state (run2 (es @ UserMediaGranted st # es1 @ LoadedMetadata t # es')
                    (initial2 win)) = InitDone \<and>
      screen_present (run2 (es @ UserMediaGranted st # es1 @ LoadedMetadata t # es')
                        (initial2 win)))"
proof -
  have shown: "started scr s \<Longrightarrow> init_state s = InitDone \<and> screen_present s"
    for scr and s :: "'a session_scheme"
    by (simp add: started_def screen_present_def)
  have hidden: "waiting s \<Longrightarrow> init_state s \<noteq> InitDone \<and> screen_absent s"
    for s :: "'a session_scheme"
    by (simp add: waiting_def screen_absent_def count_list_0_iff)
  have a1: "init_state (run1 es (initial1 win)) \<noteq> InitDone \<longrightarrow>
      screen_absent (run1 es (initial1 win))"
    using reachable1 [of es win] hidden by (auto simp: started_def)
  have a2: "init_state (run2 es (initial2 win)) \<noteq> InitDone \<longrightarrow>
      screen_absent (run2 es (initial2 win))"
    using reachable2 [of es win] hidden by (auto simp: started_def)
  have b1: "init_state (run1 es (initial1 win)) = InitDone \<longrightarrow>
      init_state (run1 es' (run1 es (initial1 win))) = InitDone \<and>
      screen_present (run1 es' (run1 es (initial1 win)))"
  proof
    assume "init_state (run1 es (initial1 win)) = InitDone"
    with reachable1 [of es win] have "started screen1 (run1 es (initial1 win))"
      by (auto simp: waiting_def)
    from shown [OF started_run1 [OF this, of es']]
    show "init_state (run1 es' (run1 es (initial1 win))) = InitDone \<and>
      screen_present (run1 es' (run1 es (initial1 win)))" .
  qed
  have b2: "init_state (run2 es (initial2 win)) = InitDone \<longrightarrow>
      init_state (run2 es' (run2 es (initial2 win))) = InitDone \<and>
      screen_present (run2 es' (run2 es (initial2 win)))"
  proof
    assume "init_state (run2 es (initial2 win)) = InitDone"
    with reachable2 [of es win] have "started screen2 (run2 es (initial2 win))"
      by (auto simp: waiting_def)
    from shown [OF started_run2 [OF this, of es']]
    show "init_state (run2 es' (run2 es (initial2 win))) = InitDone \<and>
      screen_present (run2 es' (run2 es (initial2 win)))" .
  qed
  have c1: "filter is_loaded es = [] \<longrightarrow>
      init_state (run1 es (initial1 win)) \<noteq> InitDone \<and> screen_absent (run1 es (initial1 win))"
    using unresolved_run1 [OF waiting_initial1, of es win] hidden by blast
  have c2: "filter is_loaded es = [] \<longrightarrow>
      init_state (run2 es (initial2 win)) \<noteq> InitDone \<and> screen_absent (run2 es (initial2 win))"
    using unresolved_run2 [OF waiting_initial2, of es win] hidden by blast
  have d1: "init_state (run1 es (initial1 win)) = AwaitMetadata \<longrightarrow>
      init_state (run1 (es @ LoadedMetadata t # es') (initial1 win)) = InitDone \<and>
      screen_present (run1 (es @ LoadedMetadata t # es') (initial1 win))"
  proof
    assume p: "init_state (run1 es (initial1 win)) = AwaitMetadata"
    with reachable1 [of es win] have "waiting (run1 es (initial1 win))"
      by (auto simp: started_def)
    from shown [OF started_run1 [OF loaded_step1 [OF this p, of t], of es']]
    show "init_state (run1 (es @ LoadedMetadata t # es') (initial1 win)) = InitDone \<and>
      screen_present (run1 (es @ LoadedMetadata t # es') (initial1 win))"
      by (simp add: run1_append)
  qed
  have d2: "init_state (run2 es (initial2 win)) = AwaitMetadata \<longrightarrow>
      init_state (run2 (es @ LoadedMetadata t # es') (initial2 win)) = InitDone \<and>
      screen_present (run2 (es @ LoadedMetadata t # es') (initial2 win))"
  proof
    assume p: "init_state (run2 es (initial2 win)) = AwaitMetadata"
    with reachable2 [of es win] have "waiting (run2 es (initial2 win))"
      by (auto simp: started_def)
    from shown [OF started_run2 [OF loaded_step2 [OF this p, of t], of es']]
    show "init_state (run2 (es @ LoadedMetadata t # es') (initial2 win)) = InitDone \<and>
      screen_present (run2 (es @ LoadedMetadata t # es') (initial2 win))"
      by (simp add: run2_append)
  qed
  have e1: "filter is_denied es = [] \<longrightarrow>
      init_state (run1 (es @ UserMediaGranted st # es1 @ LoadedMetadata t # es')
                    (initial1 win)) = InitDone \<and>
      screen_present (run1 (es @ UserMediaGranted st # es1 @ LoadedMetadata t # es')
                        (initial1 win))"
  proof
    assume "filter is_denied es = []"
    from alive_run1 [OF _ this, of "initial1 win"]
    have "init_state (run1 es (initial1 win)) = AwaitUserMedia \<or>
          init_state (run1 es (initial1 win)) = AwaitMetadata \<or>
          init_state (run1 es (initial1 win)) = InitDone"
      by (simp add: initial_pending)
    from grant_then_load1 [OF this, of st es1 t]
    have settled: "init_state (run1 (es @ UserMediaGranted st # es1 @ [LoadedMetadata t])
                              (initial1 win)) = InitDone"
      by (simp add: run1_append)
    with reachable1 [of "es @ UserMediaGranted st # es1 @ [LoadedMetadata t]" win]
    have "started screen1 (run1 (es @ UserMediaGranted st # es1 @ [LoadedMetadata t])
                             (initial1 win))"
      by (auto simp: waiting_def)
    from shown [OF started_run1 [OF this, of es']]
    show "init_state (run1 (es @ UserMediaGranted st # es1 @ LoadedMetadata t # es')
                    (initial1 win)) = InitDone \<and>
      screen_present (run1 (es @ UserMediaGranted st # es1 @ LoadedMetadata t # es')
                        (initial1 win))"
      by (simp add: run1_append)
  qed
  have e2: "filter is_denied es = [] \<longrightarrow>
      init_state (run2 (es @ UserMediaGranted st # es1 @ LoadedMetadata t # es')
                    (initial2 win)) = InitDone \<and>
      screen_present (run2 (es @ UserMediaGranted st # es1 @ LoadedMetadata t # es')
                        (initial2 win))"
  proof
    assume "filter is_denied es = []"
    from alive_run2 [OF _ this, of "initial2 win"]
    have "init_state (run2 es (initial2 win)) = AwaitUserMedia \<or>
          init_state (run2 es (initial2 win)) = AwaitMetadata \<or>
          init_state (run2 es (initial2 win)) = InitDone"
      by (simp add: initial_pending)
    from grant_then_load2 [OF this, of st es1 t]
    have settled: "init_state (run2 (es @ UserMediaGranted st # es1 @ [LoadedMetadata t])
                              (initial2 win)) = InitDone"
      by (simp add: run2_append)
    with reachable2 [of "es @ UserMediaGranted st # es1 @ [LoadedMetadata t]" win]
    have "started screen2 (run2 (es @ UserMediaGranted st # es1 @ [LoadedMetadata t])
                             (initial2 win))"
      by (auto simp: waiting_def)
    from shown [OF started_run2 [OF this, of es']]
    show "init_state (run2 (es @ UserMediaGranted st # es1 @ LoadedMetadata t # es')
                    (initial2 win)) = InitDone \<and>
      screen_present (run2 (es @ UserMediaGranted st # es1 @ LoadedMetadata t # es')
                        (initial2 win))"
      by (simp add: run2_append)
  qed
  from a1 b1 c1 d1 e1 a2 b2 c2 d2 e2 show ?thesis
    by blast
qed

theorem screen_and_texture_follow_capture_witness:
  "filter is_loaded stream_attached = [] \<and>
   filter is_denied stream_attached = [] \<and>
   init_state (run1 stream_attached (initial1 window0)) = AwaitMetadata \<and>
   init_state (run2 stream_attached (initial2 window0)) = AwaitMetadata \<and>
   screen_absent (run1 stream_attached (initial1 window0)) \<and>
   screen_absent (run2 stream_attached (initial2 window0)) \<and>
   screen_present (run1 (stream_attached @ LoadedMetadata 2 # camera_granted_late)
                     (initial1 window0)) \<and>
   screen_present (run2 (stream_attached @ LoadedMetadata 2 # camera_granted_late)
                     (initial2 window0)) \<and>
   screen_present (run1 (stream_attached @ UserMediaGranted 7 # camera_denied @
                           LoadedMetadata 2 # camera_granted_late) (initial1 window0)) \<and>
   screen_present (run2 (stream_attached @ UserMediaGranted 7 # camera_denied @
                           LoadedMetadata 2 # camera_granted_late) (initial2 window0)) \<and>
   init_state (run1 camera_granted (initial1 window0)) = InitDone \<and>
   init_state (run2 camera_granted (initial2 window0)) = InitDone \<and>
   screen_present (run1 camera_granted_late (run1 camera_granted (initial1 window0))) \<and>
   screen_present (run2 camera_granted_late (run2 camera_granted (initial2 window0)))"
proof -
  have l: "filter is_loaded stream_attached = []"
    by (simp add: stream_attached_def)
  have d: "filter is_denied stream_attached = []"
    by (simp add: stream_attached_def)
  have n: "init_state (run1 stream_attached (initial1 window0)) \<noteq> InitDone"
    "init_state (run2 stream_attached (initial2 window0)) \<noteq> InitDone"
    by (simp_all add: stream_attached_state)
  from l d n stream_attached_state granted_done1(1) granted_done2(1)
    screen_and_texture_follow_capture
      [of stream_attached window0 camera_granted_late 2 7 camera_denied]
    screen_and_texture_follow_capture [of camera_granted window0 camera_granted_late]
  show ?thesis
    by blast
qed

text \<open>
  C7. The resize handler is idempotent: for a fixed window, running it twice leaves the
  whole session (sizes, camera, renderer and everything else) as running it once does.
\<close>

theorem resize_idempotent:
  "step1 (Resize win) (step1 (Resize win) s) = step1 (Resize win) s \<and>
   step2 (Resize win) (step2 (Resize win) s') = step2 (Resize win) s' \<and>
   sizes (step1 (Resize win) (step1 (Resize win) s)) = sizes (step1 (Resize win) s) \<and>
   camera (step1 (Resize win) (step1 (Resize win) s)) = camera (step1 (Resize win) s) \<and>
   renderer (step1 (Resize win) (step1 (Resize win) s)) = renderer (step1 (Resize win) s) \<and>
   sizes (step2 (Resize win) (step2 (Resize win) s')) = sizes (step2 (Resize win) s') \<and>
   camera (step2 (Resize win) (step2 (Resize win) s')) = camera (step2 (Resize win) s') \<and>
   renderer (step2 (Resize win) (step2 (Resize win) s')) = renderer (step2 (Resize win) s')"
  by (simp add: handler_defs)

text \<open>
  C8. Two runs of the frame loop that are fed the same sequence of elapsed times write the
  same transform values at every step, whatever else differs between the two sessions:
  the values are those of the formulas, functions of the elapsed time alone. The loop
  runs in a session where a frame is requested, as it is once \<^verbatim>\<open>init\<close> has returned.
\<close>

theorem frame_loop_deterministic:
  assumes "frame_requested a" and "frame_requested b"
    and "frame_requested c" and "frame_requested d"
  shows "map transforms1 (frames1 ts a) = map transforms1 (frames1 ts b) \<and>
         map transforms1 (frames1 ts a) =
           map (\<lambda>t. [(0.15 * t, 0.1 * t), (0.15 * t, 0.1 * t), (0.15 * t, 0.1 * t)]) ts \<and>
         map transforms2 (frames2 ts c) = map transforms2 (frames2 ts d) \<and>
         map transforms2 (frames2 ts c) =
           map (\<lambda>t. [Vector3 (2 * cos (0.5 * t)) (sin t) (2 * sin (0.5 * t)),
                     Vector3 (2.5 * cos (- 0.5 * t)) (sin (2 * t) + sin (2.5 * t))
                             (2.55 * sin (- 0.5 * t)),
                     Vector3 ((2 + sin (0.32 * t)) * cos (0.25 * t)) (2 * sin (1.5 * t))
                             ((3 + sin (0.5 * t)) * sin (0.25 * t))]) ts"
  using assms by (simp add: frames1_transforms frames2_transforms mult.commute)

theorem frame_loop_deterministic_witness:
  "frame_requested (run1 camera_granted (initial1 window0)) \<and>
   frame_requested (run1 camera_granted_late (initial1 window1)) \<and>
   frame_requested (run2 camera_granted (initial2 window0)) \<and>
   frame_requested (run2 camera_granted_late (initial2 window1)) \<and>
   map transforms1 (frames1 [0, 1, 2] (run1 camera_granted (initial1 window0))) =
     map transforms1 (frames1 [0, 1, 2] (run1 camera_granted_late (initial1 window1))) \<and>
   map transforms1 (frames1 [0, 1, 2] (run1 camera_granted (initial1 window0))) =
     [ [(0, 0), (0, 0), (0, 0)],
      [(0.15, 0.1), (0.15, 0.1), (0.15, 0.1)],
      [(0.3, 0.2), (0.3, 0.2), (0.3, 0.2)]] \<and>
   map transforms2 (frames2 [0, 1, 2] (run2 camera_granted (initial2 window0))) =
     map transforms2 (frames2 [0, 1, 2] (run2 camera_granted_late (initial2 window1)))"
proof -
  have a: "frame_requested (run1 camera_granted (initial1 window0))"
    using granted_started1(1) by (simp add: started_def)
  have b: "frame_requested (run1 camera_granted_late (initial1 window1))"
    using granted_started1(2) by (simp add: started_def)
  have c: "frame_requested (run2 camera_granted (initial2 window0))"
    using granted_started2(1) by (simp add: started_def)
  have d: "frame_requested (run2 camera_granted_late (initial2 window1))"
    using granted_started2(2) by (simp add: started_def)
  note run = frame_loop_deterministic [OF a b c d, of "[0, 1, 2]"]
  have e1: "map transforms1 (frames1 [0, 1, 2] (run1 camera_granted (initial1 window0))) =
      map transforms1 (frames1 [0, 1, 2] (run1 camera_granted_late (initial1 window1)))"
    using run by blast
  have "map transforms1 (frames1 [0, 1, 2] (run1 camera_granted (initial1 window0))) =
      map (\<lambda>t. [(0.15 * t, 0.1 * t), (0.15 * t, 0.1 * t), (0.15 * t, 0.1 * t)]) [0, 1, 2]"
    using run by blast
  also have "\<dots> = [ [(0, 0), (0, 0), (0, 0)],
      [(0.15, 0.1), (0.15, 0.1), (0.15, 0.1)],
      [(0.3, 0.2), (0.3, 0.2), (0.3, 0.2)]]"
    by simp
  finally have e2: "map transforms1 (frames1 [0, 1, 2] (run1 camera_granted (initial1 window0))) =
      [ [(0, 0), (0, 0), (0, 0)],
       [(0.15, 0.1), (0.15, 0.1), (0.15, 0.1)],
       [(0.3, 0.2), (0.3, 0.2), (0.3, 0.2)]]" .
  have e3: "map transforms2 (frames2 [0, 1, 2] (run2 camera_granted (initial2 window0))) =
      map transforms2 (frames2 [0, 1, 2] (run2 camera_granted_late (initial2 window1)))"
    using run by blast
  from a b c d e1 e2 e3 show ?thesis
    by blast
qed

text \<open>
  C9. The screen mesh that \<^verbatim>\<open>init\<close> builds when the webcam has resolved is a plane of
  width 16/9 and height 1 with unit scale in variant 1, and a plane of width 4/3 and
  height 1 with x-scale -1 (mirrored) in variant 2; it is added to the scene, and it is
  the screen of every session in which \<^verbatim>\<open>init\<close> has returned.
\<close>

theorem screen_geometry:
  "screen (init1_resume t s) =
     Some \<lparr>position = Vector3 0 1 (- 5), rotation = Vector3 0 0 0, scale = Vector3 1 1 1,
           geometry = PlaneGeometry (16 / 9) 1\<rparr> \<and>
   scene (init1_resume t s) = scene s @ [Screen] \<and>
   screen (init2_resume t s') =
     Some \<lparr>position = Vector3 0 0 0, rotation = Vector3 0 0 0, scale = Vector3 (- 1) 1 1,
           geometry = PlaneGeometry (4 / 3) 1\<rparr> \<and>
   scene (init2_resume t s') = scene s' @ [Screen] \<and>
   (init_state (run1 es (initial1 win)) = InitDone \<longrightarrow>
      screen (run1 es (initial1 win)) =
        Some \<lparr>position = Vector3 0 1 (- 5), rotation = Vector3 0 0 0, scale = Vector3 1 1 1,
              geometry = PlaneGeometry (16 / 9) 1\<rparr>) \<and>
   (init_state (run2 es (initial2 win)) = InitDone \<longrightarrow>
      screen (run2 es (initial2 win)) =
        Some \<lparr>position = Vector3 0 0 0, rotation = Vector3 0 0 0, scale = Vector3 (- 1) 1 1,
              geometry = PlaneGeometry (4 / 3) 1\<rparr>)"
  using reachable1 [of es win] reachable2 [of es win]
  by (auto simp: init1_resume_effect init2_resume_effect tick1_effect tick2_effect
      started_def waiting_def screen1_def screen2_def)

theorem screen_geometry_witness:
  "init_state (run1 camera_granted (initial1 window0)) = InitDone \<and>
   init_state (run2 camera_granted (initial2 window0)) = InitDone \<and>
   map_option geometry (screen (run1 camera_granted (initial1 window0))) =
     Some (PlaneGeometry (16 / 9) 1) \<and>
   map_option scale (screen (run1 camera_granted (initial1 window0))) = Some (Vector3 1 1 1) \<and>
   map_option geometry (screen (run2 camera_granted (initial2 window0))) =
     Some (PlaneGeometry (4 / 3) 1) \<and>
   map_option scale (screen (run2 camera_granted (initial2 window0))) = Some (Vector3 (- 1) 1 1)"
  using granted_done1(1) granted_done2(1)
    screen_geometry [of 0 "initial1 window0" "initial2 window0" camera_granted window0]
  by simp

text \<open>
  C10, as the code has it. In variant 1, one execution of the tick body changes, of the
  meshes, only the rotation x and y of sphere, cube and torus: every mesh keeps its
  position and its rotation z, and the floor plane is untouched. Besides the meshes it
  marks the video texture dirty (when there is one), lets the orbit controls advance,
  which may move the camera, and requests the next frame; nothing else of the session
  changes. In every session reached from the page's start, the sphere is at (-1.5, 0, 0),
  the cube at (0, 0, 0), the torus at (1.5, 0, 0), and the floor plane at y = -0.65 with
  rotation x = -pi/2.
\<close>

theorem tick1_frame:
  "tick1 t s =
     s\<lparr>camera := (camera s)
          \<lparr>camera_position := fst (orbit_step (controls s) (camera_position (camera s)))\<rparr>,
       controls := snd (orbit_step (controls s) (camera_position (camera s))),
       sphere := (sphere s)\<lparr>rotation := set_x (0.15 * t) (set_y (0.1 * t) (rotation (sphere s)))\<rparr>,
       cube := (cube s)\<lparr>rotation := set_x (0.15 * t) (set_y (0.1 * t) (rotation (cube s)))\<rparr>,
       torus := (torus s)\<lparr>rotation := set_x (0.15 * t) (set_y (0.1 * t) (rotation (torus s)))\<rparr>,
       videoTexture := map_option (\<lambda>tex. tex\<lparr>needsUpdate := True\<rparr>) (videoTexture s),
       frame_requested := True,
       trace := trace s @
         [GetElapsedTime, SetRotation Sphere AxisY, SetRotation Cube AxisY,
          SetRotation Torus AxisY, SetRotation Sphere AxisX, SetRotation Cube AxisX,
          SetRotation Torus AxisX] @
         (if videoTexture s = None then [] else [SetNeedsUpdate]) @
         [ControlsUpdate, Render, RequestAnimationFrame]\<rparr> \<and>
   position (sphere (tick1 t s)) = position (sphere s) \<and>
   position (cube (tick1 t s)) = position (cube s) \<and>
   position (torus (tick1 t s)) = position (torus s) \<and>
   vec_z (rotation (sphere (tick1 t s))) = vec_z (rotation (sphere s)) \<and>
   vec_z (rotation (cube (tick1 t s))) = vec_z (rotation (cube s)) \<and>
   vec_z (rotation (torus (tick1 t s))) = vec_z (rotation (torus s)) \<and>
   scale (sphere (tick1 t s)) = scale (sphere s) \<and>
   scale (cube (tick1 t s)) = scale (cube s) \<and>
   scale (torus (tick1 t s)) = scale (torus s) \<and>
   plane (tick1 t s) = plane s \<and>
   screen (tick1 t s) = screen s \<and>
   position (sphere (run1 es (initial1 win))) = Vector3 (- 1.5) 0 0 \<and>
   position (cube (run1 es (initial1 win))) = Vector3 0 0 0 \<and>
   position (torus (run1 es (initial1 win))) = Vector3 1.5 0 0 \<and>
   position (plane (run1 es (initial1 win))) = Vector3 0 (- 0.65) 0 \<and>
   rotation (plane (run1 es (initial1 win))) = Vector3 (- pi / 2) 0 0"
  using layout1_run1 [OF layout1_initial1, of es win]
  by (simp add: layout1_def) (simp add: tick1_effect)

text \<open>
  C10 as stated fails: in the running session whose user has dragged the camera, a tick
  is not the session with only the three rotations and the dirty flag changed, for it
  moves the camera from (1, 1, 2) to (0, 0, 3); and a frame fired in that session
  changes the camera in the same way.
\<close>

theorem tick1_frame_counterexample:
  "tick1 1 (run1 camera_dragged (initial1 window0)) \<noteq>
     (run1 camera_dragged (initial1 window0))
       \<lparr>sphere := (sphere (run1 camera_dragged (initial1 window0)))
          \<lparr>rotation := set_x 0.15 (set_y 0.1
             (rotation (sphere (run1 camera_dragged (initial1 window0)))))\<rparr>,
        cube := (cube (run1 camera_dragged (initial1 window0)))
          \<lparr>rotation := set_x 0.15 (set_y 0.1
             (rotation (cube (run1 camera_dragged (initial1 window0)))))\<rparr>,
        torus := (torus (run1 camera_dragged (initial1 window0)))
          \<lparr>rotation := set_x 0.15 (set_y 0.1
             (rotation (torus (run1 camera_dragged (initial1 window0)))))\<rparr>,
        videoTexture := map_option (\<lambda>tex. tex\<lparr>needsUpdate := True\<rparr>)
          (videoTexture (run1 camera_dragged (initial1 window0)))\<rparr> \<and>
   camera_position (camera (run1 camera_dragged (initial1 window0))) = Vector3 1 1 2 \<and>
   camera_position (camera (tick1 1 (run1 camera_dragged (initial1 window0)))) = Vector3 0 0 3 \<and>
   camera_position (camera (step1 (AnimationFrame 1) (run1 camera_dragged (initial1 window0)))) =
     Vector3 0 0 3"
proof -
  have moved: "camera_position (camera (tick1 1 (run1 camera_dragged (initial1 window0)))) =
      Vector3 0 0 3"
    by (simp add: tick1_effect orbit_step_def dragged_camera)
  have fired: "camera_position
      (camera (step1 (AnimationFrame 1) (run1 camera_dragged (initial1 window0)))) = Vector3 0 0 3"
    using granted_started1(3)
    by (simp add: started_def tick1_effect orbit_step_def dragged_camera)
  have differs: "tick1 1 (run1 camera_dragged (initial1 window0)) \<noteq>
     (run1 camera_dragged (initial1 window0))
       \<lparr>sphere := (sphere (run1 camera_dragged (initial1 window0)))
          \<lparr>rotation := set_x 0.15 (set_y 0.1
             (rotation (sphere (run1 camera_dragged (initial1 window0)))))\<rparr>,
        cube := (cube (run1 camera_dragged (initial1 window0)))
          \<lparr>rotation := set_x 0.15 (set_y 0.1
             (rotation (cube (run1 camera_dragged (initial1 window0)))))\<rparr>,
        torus := (torus (run1 camera_dragged (initial1 window0)))
          \<lparr>rotation := set_x 0.15 (set_y 0.1
             (rotation (torus (run1 camera_dragged (initial1 window0)))))\<rparr>,
        videoTexture := map_option (\<lambda>tex. tex\<lparr>needsUpdate := True\<rparr>)
          (videoTexture (run1 camera_dragged (initial1 window0)))\<rparr>"
  proof
    assume "tick1 1 (run1 camera_dragged (initial1 window0)) =
     (run1 camera_dragged (initial1 window0))
       \<lparr>sphere := (sphere (run1 camera_dragged (initial1 window0)))
          \<lparr>rotation := set_x 0.15 (set_y 0.1
             (rotation (sphere (run1 camera_dragged (initial1 window0)))))\<rparr>,
        cube := (cube (run1 camera_dragged (initial1 window0)))
          \<lparr>rotation := set_x 0.15 (set_y 0.1
             (rotation (cube (run1 camera_dragged (initial1 window0)))))\<rparr>,
        torus := (torus (run1 camera_dragged (initial1 window0)))
          \<lparr>rotation := set_x 0.15 (set_y 0.1
             (rotation (torus (run1 camera_dragged (initial1 window0)))))\<rparr>,
        videoTexture := map_option (\<lambda>tex. tex\<lparr>needsUpdate := True\<rparr>)
          (videoTexture (run1 camera_dragged (initial1 window0)))\<rparr>"
    then have "camera_position (camera (tick1 1 (run1 camera_dragged (initial1 window0)))) =
        camera_position (camera (run1 camera_dragged (initial1 window0)))"
      by simp
    with moved dragged_camera(1) show False
      by simp
  qed
  from differs dragged_camera(1) moved fired show ?thesis
    by blast
qed

end
